theory Spec2Isabelle
  imports Complex_Main
begin

section \<open>Risk scoring of the dashboard generator\<close>

text \<open>
  \<^verbatim>\<open>DashboardGenerator\<close> (generate-dashboard.ts) derives the risk banner of the public
  dashboard from the four severity counts of the processed data. The counts are
  integers; the weighted sum is a JavaScript number, which \<^verbatim>\<open>Math.round\<close> rounds to
  the nearest integer, a tie going up.
\<close>

datatype RiskLevel = Critical | Elevated | Moderate | Low

definition Math_round :: "rat \<Rightarrow> int" where
  "Math_round x = \<lfloor>x + 1 / 2\<rfloor>"

definition calculateRiskScore :: "int \<Rightarrow> int \<Rightarrow> int \<Rightarrow> int \<Rightarrow> int" where
  "calculateRiskScore crit high medium lo =
     (let score = (of_int crit * 40) + (of_int high * 20) + (of_int medium * 5) + (of_int lo * 1)
      in min 100 (Math_round score))"

definition determineRiskLevel :: "int \<Rightarrow> RiskLevel" where
  "determineRiskLevel score =
     (if score \<ge> 75 then Critical
      else if score \<ge> 45 then Elevated
      else if score \<ge> 15 then Moderate
      else Low)"

subsection \<open>Trend\<close>

text \<open>
  A threat of the processed data. \<^verbatim>\<open>timestamp\<close> holds the instant that
  \<^verbatim>\<open>new Date(t.timestamp).getTime()\<close> yields, in milliseconds since the epoch;
  \<open>None\<close> is the NaN of a string that is no date.
\<close>

record ThreatSignal =
  threat_id :: string
  title :: string
  severity :: string
  category :: string
  timestamp :: "int option"

datatype Trend = Increasing | Stable | Decreasing

text \<open>
  \<^verbatim>\<open>determineTrend\<close> reads the clock once (\<open>now\<close>). The products
  \<^verbatim>\<open>threats.length * 0.5\<close> and \<^verbatim>\<open>threats.length * 0.2\<close> are taken as exact
  rationals: against a whole count, the comparison of the doubles comes out the same
  for every list of a length below \<open>2\<^sup>5\<^sup>0\<close>. A comparison against NaN is false.
\<close>

definition determineTrend :: "int \<Rightarrow> ThreatSignal list \<Rightarrow> Trend" where
  "determineTrend now threats =
     (let hourAgo = now - 3600000;
          recentCount = length (filter (\<lambda>t. case timestamp t of
                                               None \<Rightarrow> False
                                             | Some ms \<Rightarrow> ms > hourAgo) threats)
      in if (of_nat recentCount :: rat) > of_nat (length threats) * (5 / 10) then Increasing
         else if (of_nat recentCount :: rat) < of_nat (length threats) * (2 / 10) then Decreasing
         else Stable)"

section \<open>Strings and numbers of the JavaScript runtime\<close>

text \<open>
  A string is the list of its code units. Only the characters the code inspects matter:
  the decimal digits, the ASCII word characters of the regular expression classes
  \<^verbatim>\<open>\d\<close>, \<^verbatim>\<open>\w\<close> and \<^verbatim>\<open>\b\<close>, and the dot.
\<close>

definition isDigit :: "char \<Rightarrow> bool" where
  "isDigit c = (c \<in> set ''0123456789'')"

definition isWord :: "char \<Rightarrow> bool" where
  "isWord c = (c \<in> set ''abcdefghijklmnopqrstuvwxyzABCDEFGHIJKLMNOPQRSTUVWXYZ0123456789_'')"

definition digitChar :: "nat \<Rightarrow> char" where
  "digitChar d = ''0123456789'' ! (d mod 10)"

text \<open>The decimal rendering of a whole number, as a template literal prints it.\<close>

fun showNat :: "nat \<Rightarrow> string" where
  "showNat n = (if n < 10 then [digitChar n] else showNat (n div 10) @ [digitChar (n mod 10)])"

definition showInt :: "int \<Rightarrow> string" where
  "showInt i = (if i < 0 then CHR ''-'' # showNat (nat (- i)) else showNat (nat i))"

text \<open>
  \<^verbatim>\<open>x.toFixed(1)\<close> for \<open>x \<ge> 0\<close>: the number of tenths nearest to \<open>x\<close>, the larger
  one on a tie, printed with one decimal place. The number is taken as an exact
  rational; the exponent notation of values from \<open>10\<^sup>2\<^sup>1\<close> on is left out.
\<close>

definition toFixed1 :: "rat \<Rightarrow> string" where
  "toFixed1 x =
     (let n = nat \<lfloor>x * 10 + 1 / 2\<rfloor>
      in showNat (n div 10) @ ''.'' @ [digitChar (n mod 10)])"

text \<open>\<^verbatim>\<open>xs.join(sep)\<close>.\<close>

fun join :: "string \<Rightarrow> string list \<Rightarrow> string" where
  "join sep [] = []"
| "join sep [x] = x"
| "join sep (x # y # ys) = x @ sep @ join sep (y # ys)"

text \<open>\<^verbatim>\<open>s.includes(t)\<close>: \<open>t\<close> occurs in \<open>s\<close> as a contiguous run.\<close>

fun startsWith :: "string \<Rightarrow> string \<Rightarrow> bool" where
  "startsWith s [] = True"
| "startsWith [] (y # ys) = False"
| "startsWith (x # xs) (y # ys) = (x = y \<and> startsWith xs ys)"

fun includes_str :: "string \<Rightarrow> string \<Rightarrow> bool" where
  "includes_str [] t = (t = [])"
| "includes_str (x # xs) t = (startsWith (x # xs) t \<or> includes_str xs t)"

text \<open>\<^verbatim>\<open>s.split('.')\<close> for a one-character separator.\<close>

fun split :: "char \<Rightarrow> string \<Rightarrow> string list" where
  "split sep [] = [[]]"
| "split sep (c # cs) =
     (if c = sep then [] # split sep cs
      else (case split sep cs of
              [] \<Rightarrow> [[c]]
            | p # ps \<Rightarrow> (c # p) # ps))"


section \<open>Title sanitising\<close>

text \<open>
  \<^verbatim>\<open>sanitizeTitle\<close> replaces every match of
  \<^verbatim>\<open>/\b\d{1,3}\.\d{1,3}\.\d{1,3}\.\d{1,3}\b/g\<close> by \<^verbatim>\<open>[IP]\<close> and keeps the first 80
  code units. The expression is a sequence of three kinds of atoms; the matcher below is
  the backtracking one of the language: a greedy \<^verbatim>\<open>\d{1,3}\<close> tries three digits, then
  two, then one, and the first alternative under which the rest of the expression
  matches wins.
\<close>

datatype atom = WordBoundary | Digits13 | Lit char

text \<open>
  \<open>digitsAt k s\<close>: the string starts with \<open>k\<close> digits. \<open>wordAhead s\<close>: the next
  character is a word character (none at the end of the string).
\<close>

definition digitsAt :: "nat \<Rightarrow> string \<Rightarrow> bool" where
  "digitsAt k s = (k \<le> length s \<and> list_all isDigit (take k s))"

definition wordAhead :: "string \<Rightarrow> bool" where
  "wordAhead s = (case s of [] \<Rightarrow> False | x # _ \<Rightarrow> isWord x)"

text \<open>
  \<open>rmatch re prev s\<close> matches \<open>re\<close> at the start of \<open>s\<close>, where \<open>prev\<close> says whether
  the character before \<open>s\<close> is a word character, and returns the number of code units
  the match consumes. Behind digits the character before is a word character, a digit
  being one.
\<close>

fun rmatch :: "atom list \<Rightarrow> bool \<Rightarrow> string \<Rightarrow> nat option" where
  "rmatch [] prev s = Some 0"
| "rmatch (Lit c # re) prev s =
     (case s of
        [] \<Rightarrow> None
      | x # xs \<Rightarrow> if x = c then map_option Suc (rmatch re (isWord x) xs) else None)"
| "rmatch (WordBoundary # re) prev s =
     (if prev \<noteq> wordAhead s then rmatch re prev s else None)"
| "rmatch (Digits13 # re) prev s =
     (case (if digitsAt 3 s then map_option ((+) 3) (rmatch re True (drop 3 s)) else None) of
        Some n \<Rightarrow> Some n
      | None \<Rightarrow>
     (case (if digitsAt 2 s then map_option ((+) 2) (rmatch re True (drop 2 s)) else None) of
        Some n \<Rightarrow> Some n
      | None \<Rightarrow>
        (if digitsAt 1 s then map_option ((+) 1) (rmatch re True (drop 1 s)) else None)))"

text \<open>
  \<^verbatim>\<open>s.replace(re, rep)\<close> with the global flag: the scan tries a match at every
  position from left to right; a match is replaced and the scan goes on behind it (one
  position further after an empty match).
\<close>

fun replaceAll :: "atom list \<Rightarrow> string \<Rightarrow> bool \<Rightarrow> string \<Rightarrow> string" where
  "replaceAll re rep prev [] = (case rmatch re prev [] of Some _ \<Rightarrow> rep | None \<Rightarrow> [])"
| "replaceAll re rep prev (c # cs) =
     (case rmatch re prev (c # cs) of
        None \<Rightarrow> c # replaceAll re rep (isWord c) cs
      | Some 0 \<Rightarrow> rep @ c # replaceAll re rep (isWord c) cs
      | Some (Suc n) \<Rightarrow> rep @ replaceAll re rep (isWord ((c # cs) ! n)) (drop n cs))"

definition ipPattern :: "atom list" where
  "ipPattern =
     [WordBoundary, Digits13, Lit CHR ''.'', Digits13, Lit CHR ''.'', Digits13, Lit CHR ''.'',
      Digits13, WordBoundary]"

definition sanitizeTitle :: "string \<Rightarrow> string" where
  "sanitizeTitle t = take 80 (replaceAll ipPattern ''[IP]'' False t)"

text \<open>The timeline of the dashboard: the first eight threats.\<close>

record TimelineEntry =
  tl_id :: string
  tl_title :: string
  tl_severity :: string
  tl_category :: string
  tl_timestamp :: "int option"

definition formatCategory_table :: "(string \<times> string) list" where
  "formatCategory_table =
     [(''malware'', ''Malware''), (''ransomware'', ''Ransomware''), (''phishing'', ''Phishing''),
      (''ddos'', ''DDoS''), (''apt'', ''APT''), (''vulnerability'', ''Vulnerability''),
      (''data_breach'', ''Data Breach''), (''supply_chain'', ''Supply Chain''),
      (''social_engineering'', ''Social Engineering''), (''infrastructure'', ''Infrastructure''),
      (''other'', ''Other'')]"

definition toLowerCase_char :: "char \<Rightarrow> char" where
  "toLowerCase_char c =
     (case map_of (zip ''ABCDEFGHIJKLMNOPQRSTUVWXYZ'' ''abcdefghijklmnopqrstuvwxyz'') c of
        Some l \<Rightarrow> l
      | None \<Rightarrow> c)"

definition formatCategory :: "string \<Rightarrow> string" where
  "formatCategory cat =
     (case map_of formatCategory_table (map toLowerCase_char cat) of
        Some name \<Rightarrow> if name = [] then cat else name
      | None \<Rightarrow> cat)"

definition timeline :: "ThreatSignal list \<Rightarrow> TimelineEntry list" where
  "timeline threats =
     map (\<lambda>t. \<lparr> tl_id = threat_id t,
                 tl_title = sanitizeTitle (title t),
                 tl_severity = severity t,
                 tl_category = formatCategory (category t),
                 tl_timestamp = timestamp t \<rparr>)
         (take 8 threats)"

text \<open>
  A string shows a dotted quad when somewhere in it four groups of one to three digits
  stand separated by dots, whatever surrounds them.
\<close>

definition quadPattern :: "atom list" where
  "quadPattern =
     [Digits13, Lit CHR ''.'', Digits13, Lit CHR ''.'', Digits13, Lit CHR ''.'', Digits13]"

fun matchesSomewhere :: "atom list \<Rightarrow> bool \<Rightarrow> string \<Rightarrow> bool" where
  "matchesSomewhere re prev [] = (rmatch re prev [] \<noteq> None)"
| "matchesSomewhere re prev (c # cs) =
     (rmatch re prev (c # cs) \<noteq> None \<or> matchesSomewhere re (isWord c) cs)"

definition containsDottedQuad :: "string \<Rightarrow> bool" where
  "containsDottedQuad s = matchesSomewhere quadPattern False s"

section \<open>Cross-source correlation of the dashboard\<close>

text \<open>
  The enumeration \<^verbatim>\<open>DataSource\<close> is declared in the pipeline's type module; its
  members are the keys of the table in \<^verbatim>\<open>formatSource\<close>. \<^verbatim>\<open>SHODAN\<close> is the
  infrastructure source and \<^verbatim>\<open>X_COM\<close> the social one.
\<close>

datatype DataSource = SHODAN | X_COM | MISP | ALIENVAULT | VIRUSTOTAL | ABUSE_CH

text \<open>
  A correlation signal of the processed data, as the generator reads it. An absent
  \<^verbatim>\<open>sampleData\<close> or \<^verbatim>\<open>temporalAnalysis\<close> is \<open>None\<close>; \<^verbatim>\<open>timeDeltaHours\<close> is a
  number read from JSON (never NaN), \<open>None\<close> when the field is null or missing.
\<close>

record SourceEntry =
  source :: DataSource
  count :: int
  sampleData :: "string list option"
  lastSeen :: string

record TemporalAnalysis =
  timeDeltaHours :: "rat option"
  infraPrecedesSocial :: bool
  pattern :: string

record CorrelationSignal =
  sig_id :: string
  label :: string
  sources :: "SourceEntry list"
  temporalAnalysis :: "TemporalAnalysis option"

record Correlation =
  signals :: "CorrelationSignal list"
  dominantPattern :: string
  correlatedSignals :: int

record EvidenceLink =
  ev_source :: DataSource
  ev_type :: string
  ev_title :: string
  ev_url :: string
  ev_timestamp :: string
  ev_excerpt :: string
  ev_metadata_ip :: "string option"

record DashboardSignal =
  ds_id :: string
  ds_label :: string
  infraCount :: int
  socialCount :: int
  ds_timeDeltaHours :: "rat option"
  ds_interpretation :: string
  evidence_infrastructure :: "EvidenceLink list"
  evidence_social :: "EvidenceLink list"

record DashboardCorrelation =
  insight :: string
  dc_pattern :: string
  dc_signals :: "DashboardSignal list"

definition generateInterpretation :: "CorrelationSignal \<Rightarrow> string" where
  "generateInterpretation sig =
     (let deltaHours = (case temporalAnalysis sig of None \<Rightarrow> None | Some ta \<Rightarrow> timeDeltaHours ta);
          pat = map_option pattern (temporalAnalysis sig)
      in case deltaHours of
           None \<Rightarrow> label sig @ '' activity detected simultaneously in infrastructure and social channels.''
         | Some d \<Rightarrow>
             if d = 0
             then label sig @ '' activity detected simultaneously in infrastructure and social channels.''
             else if (case temporalAnalysis sig of None \<Rightarrow> False | Some ta \<Rightarrow> infraPrecedesSocial ta)
             then (if pat = Some ''scanning''
                   then ''Infrastructure scanning of '' @ label sig @ '' detected '' @ toFixed1 \<bar>d\<bar>
                          @ ''h before social discussion, indicating reconnaissance activity.''
                   else label sig @ '' infrastructure exposure detected '' @ toFixed1 \<bar>d\<bar>
                          @ ''h before social awareness emerged.'')
             else ''Social discussion of '' @ label sig @ '' preceded infrastructure detection by ''
                    @ toFixed1 \<bar>d\<bar> @ ''h, suggesting threat awareness before observable exposure.'')"

definition generateCorrelationInsight :: "CorrelationSignal list \<Rightarrow> string \<Rightarrow> string" where
  "generateCorrelationInsight sigs pat =
     (let topSignals = map label (take 3 sigs)
      in if pat = ''infra-first''
         then ''Infrastructure scanning activity detected across '' @ join '', '' topSignals
                @ '' services before corresponding social discussion. This pattern typically indicates active reconnaissance or early exploitation attempts.''
         else if pat = ''social-first''
         then ''Security discussions around '' @ join '', '' topSignals
                @ '' appeared in social channels before observable infrastructure activity. This could indicate emerging threats or coordinated awareness campaigns.''
         else if pat = ''simultaneous''
         then ''Concurrent activity detected across '' @ join '', '' topSignals
                @ '' in both infrastructure and social intelligence. This synchronized pattern may indicate an active campaign.''
         else ''Cross-source correlation detected for '' @ join '', '' topSignals @ ''.'')"

definition maskIp :: "string \<Rightarrow> string" where
  "maskIp ip =
     (let parts = split CHR ''.'' ip
      in if length parts = 4 then parts ! 0 @ ''.'' @ parts ! 1 @ ''.xxx.xxx'' else ip)"

definition buildInfraEvidence :: "SourceEntry option \<Rightarrow> string \<Rightarrow> EvidenceLink list" where
  "buildInfraEvidence src lbl =
     (case src of
        None \<Rightarrow> []
      | Some entry \<Rightarrow>
          (case sampleData entry of
             None \<Rightarrow> []
           | Some samples \<Rightarrow>
               map (\<lambda>sample. \<lparr> ev_source = SHODAN,
                                ev_type = ''host'',
                                ev_title = lbl @ '' host: '' @ maskIp sample,
                                ev_url = ''https://www.shodan.io/host/'' @ sample,
                                ev_timestamp = lastSeen entry,
                                ev_excerpt = ''Exposed '' @ lbl @ '' service detected'',
                                ev_metadata_ip = Some sample \<rparr>)
                   (take 3 samples)))"

text \<open>\<^verbatim>\<open>encodeURIComponent\<close> is the runtime's; the generator takes it as it is.\<close>

definition buildSocialEvidence ::
  "(string \<Rightarrow> string) \<Rightarrow> SourceEntry option \<Rightarrow> string \<Rightarrow> EvidenceLink list" where
  "buildSocialEvidence encodeURIComponent src lbl =
     (case src of
        None \<Rightarrow> []
      | Some entry \<Rightarrow>
          (case sampleData entry of
             None \<Rightarrow> []
           | Some samples \<Rightarrow>
               map (\<lambda>excerpt. \<lparr> ev_source = X_COM,
                                 ev_type = ''post'',
                                 ev_title = lbl @ '' discussion'',
                                 ev_url = ''https://x.com/search?q='' @ encodeURIComponent lbl,
                                 ev_timestamp = lastSeen entry,
                                 ev_excerpt = take 100 excerpt
                                                @ (if length excerpt > 100 then ''...'' else []),
                                 ev_metadata_ip = None \<rparr>)
                   (take 3 samples)))"

text \<open>The filter of \<^verbatim>\<open>buildCorrelationSection\<close>: counts above zero under both sources.\<close>

definition hasInfra :: "CorrelationSignal \<Rightarrow> bool" where
  "hasInfra s = list_ex (\<lambda>src. source src = SHODAN \<and> count src > 0) (sources s)"

definition hasSocial :: "CorrelationSignal \<Rightarrow> bool" where
  "hasSocial s = list_ex (\<lambda>src. source src = X_COM \<and> count src > 0) (sources s)"

definition buildCorrelationSection ::
  "(string \<Rightarrow> string) \<Rightarrow> Correlation option \<Rightarrow> DashboardCorrelation option" where
  "buildCorrelationSection encodeURIComponent correlation =
     (case correlation of
        None \<Rightarrow> None
      | Some c \<Rightarrow>
          if length (signals c) = 0 then None
          else
            let correlated = filter (\<lambda>s. hasInfra s \<and> hasSocial s) (signals c)
            in if length correlated = 0 then None
               else Some
                 \<lparr> insight = generateCorrelationInsight correlated (dominantPattern c),
                   dc_pattern = dominantPattern c,
                   dc_signals =
                     map (\<lambda>sig.
                            let infraSource = find (\<lambda>s. source s = SHODAN) (sources sig);
                                socialSource = find (\<lambda>s. source s = X_COM) (sources sig)
                            in \<lparr> ds_id = sig_id sig,
                                 ds_label = label sig,
                                 infraCount = (case infraSource of None \<Rightarrow> 0 | Some e \<Rightarrow> count e),
                                 socialCount = (case socialSource of None \<Rightarrow> 0 | Some e \<Rightarrow> count e),
                                 ds_timeDeltaHours =
                                   (case temporalAnalysis sig of
                                      None \<Rightarrow> None
                                    | Some ta \<Rightarrow> timeDeltaHours ta),
                                 ds_interpretation = generateInterpretation sig,
                                 evidence_infrastructure = buildInfraEvidence infraSource (label sig),
                                 evidence_social =
                                   buildSocialEvidence encodeURIComponent socialSource (label sig) \<rparr>)
                         (take 5 correlated) \<rparr>)"

section \<open>The dashboard\<close>

text \<open>
  \<^verbatim>\<open>buildDashboard\<close>, in the fields that the risk banner, the timeline and the
  correlation section fill; the executive summary, the categories, the sources, the
  indicators and the confidence are left out. The processed data is \<open>None\<close> when its
  file could not be loaded. The same reading of the clock serves the trend.
\<close>

record ProcessedData =
  threats :: "ThreatSignal list"
  bySeverity :: "string \<Rightarrow> int option"
  correlation :: "Correlation option"

record PublicDashboard =
  status_riskLevel :: RiskLevel
  status_riskScore :: int
  status_trend :: Trend
  metrics_criticalCount :: int
  metrics_highCount :: int
  metrics_mediumCount :: int
  metrics_lowCount :: int
  pd_timeline :: "TimelineEntry list"
  pd_correlation :: "DashboardCorrelation option"

definition buildEmptyDashboard :: PublicDashboard where
  "buildEmptyDashboard =
     \<lparr> status_riskLevel = Low, status_riskScore = 0, status_trend = Stable,
       metrics_criticalCount = 0, metrics_highCount = 0, metrics_mediumCount = 0,
       metrics_lowCount = 0, pd_timeline = [], pd_correlation = None \<rparr>"

definition buildDashboard ::
  "(string \<Rightarrow> string) \<Rightarrow> int \<Rightarrow> ProcessedData option \<Rightarrow> PublicDashboard" where
  "buildDashboard encodeURIComponent now d =
     (case d of
        None \<Rightarrow> buildEmptyDashboard
      | Some pd \<Rightarrow>
          if length (threats pd) = 0 then buildEmptyDashboard
          else
            let criticalCount = (case bySeverity pd ''critical'' of None \<Rightarrow> 0 | Some n \<Rightarrow> n);
                highCount = (case bySeverity pd ''high'' of None \<Rightarrow> 0 | Some n \<Rightarrow> n);
                mediumCount = (case bySeverity pd ''medium'' of None \<Rightarrow> 0 | Some n \<Rightarrow> n);
                lowCount = (case bySeverity pd ''low'' of None \<Rightarrow> 0 | Some n \<Rightarrow> n);
                riskScore = calculateRiskScore criticalCount highCount mediumCount lowCount;
                riskLevel = determineRiskLevel riskScore
            in \<lparr> status_riskLevel = riskLevel, status_riskScore = riskScore,
                 status_trend = determineTrend now (threats pd),
                 metrics_criticalCount = criticalCount, metrics_highCount = highCount,
                 metrics_mediumCount = mediumCount, metrics_lowCount = lowCount,
                 pd_timeline = timeline (threats pd),
                 pd_correlation = buildCorrelationSection encodeURIComponent (correlation pd) \<rparr>)"

section \<open>Scrapers: cache, rate limit and execution\<close>

text \<open>
  \<^verbatim>\<open>BaseScraper\<close> works on the file system and the clock, and its methods are
  asynchronous. The model passes the world and the scraper object explicitly. A rejected promise or a thrown
  exception is the value \<open>Inl\<close> of a sum; what is thrown is an \<^verbatim>\<open>Error\<close> with its
  message, or some other value.
\<close>

datatype thrown = Error string | NotAnError

record World =
  clock :: int
  files :: "string \<Rightarrow> string option"
  writable :: "string \<Rightarrow> bool"

text \<open>
  The clock counts milliseconds since the epoch. A file is its content; a path with no
  file, or with one that cannot be read, is \<open>None\<close>. \<open>writable\<close> says where
  \<^verbatim>\<open>fs.mkdir\<close> and \<^verbatim>\<open>fs.writeFile\<close> succeed. Time passes only where the model says so:
  in \<^verbatim>\<open>sleep\<close> and in \<^verbatim>\<open>scrape\<close>.
\<close>

definition fs_access :: "World \<Rightarrow> string \<Rightarrow> thrown + unit" where
  "fs_access w p = (case files w p of None \<Rightarrow> Inl (Error ''ENOENT'') | Some _ \<Rightarrow> Inr ())"

definition fs_readFile :: "World \<Rightarrow> string \<Rightarrow> thrown + string" where
  "fs_readFile w p = (case files w p of None \<Rightarrow> Inl (Error ''ENOENT'') | Some c \<Rightarrow> Inr c)"

definition fs_mkdir :: "World \<Rightarrow> string \<Rightarrow> thrown + World" where
  "fs_mkdir w d = (if writable w d then Inr w else Inl (Error ''EACCES''))"

definition fs_writeFile :: "World \<Rightarrow> string \<Rightarrow> string \<Rightarrow> thrown + World" where
  "fs_writeFile w p c =
     (if writable w p then Inr (w\<lparr>files := (files w)(p \<mapsto> c)\<rparr>) else Inl (Error ''EACCES''))"

record RateLimit =
  requestsPerMinute :: nat
  cooldownMs :: nat

record CacheConfig =
  cache_enabled :: bool
  ttlHours :: int

record ScraperConfig =
  enabled :: bool
  config_source :: DataSource
  rateLimit :: RateLimit
  cache :: CacheConfig
  queries :: "string list"

text \<open>
  The scraper object. \<^verbatim>\<open>lastRequestTime\<close> starts at 0; \<^verbatim>\<open>cacheDir\<close> is set by the
  constructor from the environment.
\<close>

record Scraper =
  config :: ScraperConfig
  cacheDir :: string
  lastRequestTime :: int

text \<open>
  The environment variables that \<^verbatim>\<open>execute\<close> and \<^verbatim>\<open>loadFromCache\<close> read.
  \<open>CACHE_TTL_HOURS\<close> is the value of \<^verbatim>\<open>Number(process.env.CACHE_TTL_HOURS)\<close>, a whole
  number of hours, \<open>None\<close> for NaN (the variable unset or no number).
\<close>

record Env =
  USE_CACHE :: "string option"
  CACHE_TTL_HOURS :: "int option"

record CacheMetadata =
  createdAt :: int
  expiresAt :: int
  meta_source :: DataSource
  checksum :: string

text \<open>
  What \<^verbatim>\<open>JSON.parse\<close> of the metadata file yields, as far as \<^verbatim>\<open>loadFromCache\<close> reads
  it: \<^verbatim>\<open>null\<close>, whose properties cannot be read, or a value with the time value of
  \<^verbatim>\<open>new Date(metadata.createdAt)\<close> (\<open>None\<close> for an invalid date) and the
  \<^verbatim>\<open>checksum\<close> when it is a string.
\<close>

datatype parsed_metadata = MetaNull | MetaValue "int option" "string option"

text \<open>
  The functions of the runtime, taken as they are: the MD5 digest in hexadecimal,
  \<^verbatim>\<open>JSON.parse\<close> (which throws on a malformed text; a parsed payload that is
  \<^verbatim>\<open>null\<close> is \<open>None\<close>), \<^verbatim>\<open>JSON.stringify\<close>, and the time zone of the host:
  \<open>LocalTZA t True\<close> is the offset of local time from UTC, in milliseconds, at the
  instant \<open>t\<close>, and \<open>LocalTZA t False\<close> the offset that belongs to the local time
  \<open>t\<close> (the one before the change, where a local time comes twice or not at all).
\<close>

record 'a Runtime =
  md5_hex :: "string \<Rightarrow> string"
  JSON_parse_metadata :: "string \<Rightarrow> thrown + parsed_metadata"
  JSON_parse_data :: "string \<Rightarrow> thrown + 'a option"
  JSON_stringify_data :: "'a \<Rightarrow> string"
  JSON_stringify_metadata :: "CacheMetadata \<Rightarrow> string"
  LocalTZA :: "int \<Rightarrow> bool \<Rightarrow> int"

definition generateChecksum :: "'a Runtime \<Rightarrow> string \<Rightarrow> string" where
  "generateChecksum rt dataRaw = md5_hex rt dataRaw"

definition sourceValue :: "DataSource \<Rightarrow> string" where
  "sourceValue s =
     (case s of SHODAN \<Rightarrow> ''shodan'' | X_COM \<Rightarrow> ''x.com'' | MISP \<Rightarrow> ''misp''
      | ALIENVAULT \<Rightarrow> ''alienvault'' | VIRUSTOTAL \<Rightarrow> ''virustotal'' | ABUSE_CH \<Rightarrow> ''abuse.ch'')"

text \<open>\<^verbatim>\<open>path.join\<close> of a directory and a file name (no normalisation).\<close>

definition path_join :: "string \<Rightarrow> string \<Rightarrow> string" where
  "path_join dir file = dir @ ''/'' @ file"

definition getCachePath :: "Scraper \<Rightarrow> string" where
  "getCachePath sc = path_join (cacheDir sc) (sourceValue (config_source (config sc)) @ ''-cache.json'')"

definition getCacheMetadataPath :: "Scraper \<Rightarrow> string" where
  "getCacheMetadataPath sc =
     path_join (cacheDir sc) (sourceValue (config_source (config sc)) @ ''-cache.meta.json'')"

text \<open>
  The dates of the language. A time value counts milliseconds since the epoch;
  \<^verbatim>\<open>getHours\<close> reads the hour of the day in local time, and \<^verbatim>\<open>setHours\<close> puts
  another hour into the local date and time (an hour of 24 or more runs into the
  following days) and turns the result back into a time value.
\<close>

definition msPerDay :: int where
  "msPerDay = 86400000"

definition msPerHour :: int where
  "msPerHour = 3600000"

definition msPerMinute :: int where
  "msPerMinute = 60000"

definition msPerSecond :: int where
  "msPerSecond = 1000"

definition Day :: "int \<Rightarrow> int" where
  "Day t = t div msPerDay"

definition HourFromTime :: "int \<Rightarrow> int" where
  "HourFromTime t = (t div msPerHour) mod 24"

definition MinFromTime :: "int \<Rightarrow> int" where
  "MinFromTime t = (t div msPerMinute) mod 60"

definition SecFromTime :: "int \<Rightarrow> int" where
  "SecFromTime t = (t div msPerSecond) mod 60"

definition msFromTime :: "int \<Rightarrow> int" where
  "msFromTime t = t mod msPerSecond"

definition MakeTime :: "int \<Rightarrow> int \<Rightarrow> int \<Rightarrow> int \<Rightarrow> int" where
  "MakeTime hour minute sec ms = hour * msPerHour + minute * msPerMinute + sec * msPerSecond + ms"

definition MakeDate :: "int \<Rightarrow> int \<Rightarrow> int" where
  "MakeDate day time = day * msPerDay + time"

definition LocalTime :: "'a Runtime \<Rightarrow> int \<Rightarrow> int" where
  "LocalTime rt t = t + LocalTZA rt t True"

definition UTC :: "'a Runtime \<Rightarrow> int \<Rightarrow> int" where
  "UTC rt t = t - LocalTZA rt t False"

definition getHours :: "'a Runtime \<Rightarrow> int \<Rightarrow> int" where
  "getHours rt t = HourFromTime (LocalTime rt t)"

definition setHours :: "'a Runtime \<Rightarrow> int \<Rightarrow> int \<Rightarrow> int" where
  "setHours rt t hour =
     (let local = LocalTime rt t;
          date = MakeDate (Day local)
                   (MakeTime hour (MinFromTime local) (SecFromTime local) (msFromTime local))
      in UTC rt date)"

text \<open>
  The body of the \<^verbatim>\<open>try\<close> block of \<^verbatim>\<open>loadFromCache\<close>. The expiry is the creation
  date with \<open>ttlHours\<close> added to its local hour. An invalid date stays invalid and
  compares false with every instant.
\<close>

definition loadFromCache_try :: "'a Runtime \<Rightarrow> Env \<Rightarrow> Scraper \<Rightarrow> World \<Rightarrow> thrown + 'a option" where
  "loadFromCache_try rt env sc w =
     (let metadataPath = getCacheMetadataPath sc;
          cachePath = getCachePath sc
      in case fs_access w metadataPath of Inl e \<Rightarrow> Inl e | Inr _ \<Rightarrow>
        (case fs_access w cachePath of Inl e \<Rightarrow> Inl e | Inr _ \<Rightarrow>
        (case fs_readFile w metadataPath of Inl e \<Rightarrow> Inl e | Inr metadataRaw \<Rightarrow>
        (case JSON_parse_metadata rt metadataRaw of Inl e \<Rightarrow> Inl e | Inr metadata \<Rightarrow>
        (case metadata of
           MetaNull \<Rightarrow> Inl (Error ''TypeError'')
         | MetaValue created stored \<Rightarrow>
             (let hours = (case CACHE_TTL_HOURS env of
                             None \<Rightarrow> ttlHours (cache (config sc))
                           | Some n \<Rightarrow> if n \<noteq> 0 then n else ttlHours (cache (config sc)));
                  expired = (case created of
                               None \<Rightarrow> False
                             | Some t \<Rightarrow> clock w > setHours rt t (getHours rt t + hours))
              in if expired then Inr None
                 else (case fs_readFile w cachePath of
                         Inl e \<Rightarrow> Inl e
                       | Inr dataRaw \<Rightarrow>
                           if Some (generateChecksum rt dataRaw) \<noteq> stored then Inr None
                           else JSON_parse_data rt dataRaw)))))))"

definition loadFromCache :: "'a Runtime \<Rightarrow> Env \<Rightarrow> Scraper \<Rightarrow> World \<Rightarrow> thrown + 'a option" where
  "loadFromCache rt env sc w =
     (case loadFromCache_try rt env sc w of
        Inl _ \<Rightarrow> Inr None
      | Inr r \<Rightarrow> Inr r)"

text \<open>
  \<^verbatim>\<open>saveToCache\<close> catches whatever its body throws and logs it; the world keeps what
  was written before.
\<close>

definition saveToCache :: "'a Runtime \<Rightarrow> Scraper \<Rightarrow> World \<Rightarrow> 'a \<Rightarrow> thrown + World" where
  "saveToCache rt sc w d =
     (case fs_mkdir w (cacheDir sc) of
        Inl _ \<Rightarrow> Inr w
      | Inr w1 \<Rightarrow>
          (let dataString = JSON_stringify_data rt d;
               metadata = \<lparr> createdAt = clock w1,
                            expiresAt = clock w1 + ttlHours (cache (config sc)) * 3600000,
                            meta_source = config_source (config sc),
                            checksum = generateChecksum rt dataString \<rparr>
           in (case fs_writeFile w1 (getCachePath sc) dataString of
                 Inl _ \<Rightarrow> Inr w1
               | Inr w2 \<Rightarrow>
                   (case fs_writeFile w2 (getCacheMetadataPath sc)
                           (JSON_stringify_metadata rt metadata) of
                      Inl _ \<Rightarrow> Inr w2
                    | Inr w3 \<Rightarrow> Inr w3))))"

text \<open>
  The rate limiter. \<^verbatim>\<open>60000 / requestsPerMinute\<close> is a number of the language:
  a rational, or \<^verbatim>\<open>Infinity\<close> when the divisor is 0. \<^verbatim>\<open>sleep\<close> is the timer of the
  runtime, taken as a function on the world.
\<close>

datatype jsnum = Num rat | PosInfinity

definition applyRateLimit :: "(jsnum \<Rightarrow> World \<Rightarrow> World) \<Rightarrow> Scraper \<Rightarrow> World \<Rightarrow> Scraper \<times> World" where
  "applyRateLimit sleep sc w =
     (let now = clock w;
          elapsed = now - lastRequestTime sc;
          rpm = requestsPerMinute (rateLimit (config sc));
          minInterval = (if rpm = 0 then PosInfinity else Num (60000 / of_nat rpm));
          w' = (case minInterval of
                  PosInfinity \<Rightarrow> sleep PosInfinity w
                | Num m \<Rightarrow>
                    if of_int elapsed < m
                    then sleep (Num (m - of_int elapsed + of_nat (cooldownMs (rateLimit (config sc))))) w
                    else w)
      in (sc\<lparr>lastRequestTime := clock w'\<rparr>, w'))"

record 'a ScraperResult =
  success :: bool
  data :: "'a option"
  error :: "string option"
  fromCache :: bool

definition execute ::
  "'a Runtime \<Rightarrow> Env \<Rightarrow> (Scraper \<Rightarrow> World \<Rightarrow> (thrown + 'a) \<times> Scraper \<times> World)
     \<Rightarrow> (jsnum \<Rightarrow> World \<Rightarrow> World)
     \<Rightarrow> Scraper \<Rightarrow> World \<Rightarrow> (thrown + 'a ScraperResult) \<times> Scraper \<times> World" where
  "execute rt env scrape sleep sc w =
     (if \<not> enabled (config sc)
      then (Inr \<lparr> success = False, data = None, error = Some ''Scraper disabled'', fromCache = False \<rparr>,
            sc, w)
      else
        (case (if cache_enabled (cache (config sc)) \<and> USE_CACHE env = Some ''true''
               then loadFromCache rt env sc w else Inr None) of
           Inl e \<Rightarrow> (Inl e, sc, w)
         | Inr (Some cached) \<Rightarrow>
             (Inr \<lparr> success = True, data = Some cached, error = None, fromCache = True \<rparr>, sc, w)
         | Inr None \<Rightarrow>
             (let (sc1, w1) = applyRateLimit sleep sc w
              in (case scrape sc1 w1 of
                    (Inl err, sc2, w2) \<Rightarrow>
                      (let errorMessage = (case err of Error m \<Rightarrow> m | NotAnError \<Rightarrow> ''Unknown error'')
                       in (Inr \<lparr> success = False, data = None, error = Some errorMessage,
                                  fromCache = False \<rparr>, sc2, w2))
                  | (Inr d, sc2, w2) \<Rightarrow>
                      (case (if cache_enabled (cache (config sc2)) then saveToCache rt sc2 w2 d
                             else Inr w2) of
                         Inl err \<Rightarrow>
                           (let errorMessage = (case err of Error m \<Rightarrow> m | NotAnError \<Rightarrow> ''Unknown error'')
                            in (Inr \<lparr> success = False, data = None, error = Some errorMessage,
                                       fromCache = False \<rparr>, sc2, w2))
                       | Inr w3 \<Rightarrow>
                           (Inr \<lparr> success = True, data = Some d, error = None, fromCache = False \<rparr>,
                            sc2, w3))))))"

section \<open>Enrichment fallbacks\<close>

subsection \<open>The heuristic result of \<^verbatim>\<open>LLMAnalyzer\<close>\<close>

text \<open>
  \<^verbatim>\<open>NormalizedData\<close> is the compact context \<^verbatim>\<open>LLMAnalyzer\<close> derives from the
  processed data; \<^verbatim>\<open>iocCounts\<close> keeps its keys in insertion order.
\<close>

record TopThreat =
  sev :: string
  cat :: string
  tt_title :: string

record NormalizedData =
  threatCount :: int
  critical :: int
  high :: int
  medium :: int
  topCategory :: string
  topThreats :: "TopThreat list"
  iocCounts :: "(string \<times> int) list"
  cves :: "string list"
  nd_sources :: "string list"

record Insight =
  insight_id :: string
  insight_type :: string
  insight_title :: string
  content :: string
  confidence :: int
  relatedThreats :: "string list"

record TrendingTopic =
  topic :: string
  growth :: int
  relevance :: int

record TokenUsage =
  tu_input :: int
  tu_output :: int
  tu_total :: int

text \<open>
  \<^verbatim>\<open>analysisTimestamp\<close> holds the instant whose ISO rendering the code stores.
\<close>

record LLMAnalysisResult =
  insights :: "Insight list"
  executiveSummary :: string
  technicalSummary :: string
  recommendations :: "string list"
  trendingTopics :: "TrendingTopic list"
  analysisTimestamp :: int
  model :: string
  tokenUsage :: TokenUsage

text \<open>\<^verbatim>\<open>process.env.OLLAMA_MODEL || 'qwen2:0.5b'\<close>, read when the module loads.\<close>

definition OLLAMA_MODEL :: "string option \<Rightarrow> string" where
  "OLLAMA_MODEL env = (case env of None \<Rightarrow> ''qwen2:0.5b'' | Some v \<Rightarrow> if v = [] then ''qwen2:0.5b'' else v)"

definition calculateRisk :: "NormalizedData \<Rightarrow> string" where
  "calculateRisk d =
     (if critical d > 0 then ''critical''
      else if high d > 2 then ''high''
      else if high d > 0 \<or> medium d > 5 then ''medium''
      else ''low'')"

definition defaultSummary :: "NormalizedData \<Rightarrow> string" where
  "defaultSummary d =
     showInt (threatCount d) @ '' amenazas detectadas, '' @ showInt (critical d)
       @ '' cr'' @ [CHR 0xED] @ ''ticas. Foco: '' @ topCategory d @ ''.''"

definition defaultAction :: "NormalizedData \<Rightarrow> string" where
  "defaultAction d =
     (if critical d > 0 then ''Revisar amenazas cr'' @ [CHR 0xED] @ ''ticas inmediatamente''
      else if high d > 0 then ''Priorizar amenazas de severidad alta''
      else ''Monitorear indicadores detectados'')"

text \<open>
  \<^verbatim>\<open>buildResult\<close> reads the clock twice: \<^verbatim>\<open>Date.now()\<close> for the identifier of the
  insight and \<^verbatim>\<open>new Date()\<close> for the timestamp of the analysis.
\<close>

definition buildResult ::
  "string option \<Rightarrow> int \<Rightarrow> int \<Rightarrow> NormalizedData \<Rightarrow> string \<Rightarrow> string \<Rightarrow> string \<Rightarrow> string
     \<Rightarrow> LLMAnalysisResult" where
  "buildResult env Date_now new_Date d risk summary action mdl =
     \<lparr> insights =
         [\<lparr> insight_id = ''insight_'' @ showInt Date_now,
            insight_type = ''trend'',
            insight_title = ''An'' @ [CHR 0xE1] @ ''lisis CTI'',
            content = summary,
            confidence = (if mdl = ''ollama'' then 75 else 70),
            relatedThreats = [] \<rparr>],
       executiveSummary = summary,
       technicalSummary =
         ''IOCs: '' @ join '', '' (map (\<lambda>(k, v). showInt v @ '' '' @ k) (iocCounts d))
           @ ''. CVEs: '' @ showNat (length (cves d))
           @ ''. Fuentes: '' @ join '', '' (nd_sources d) @ ''.'',
       recommendations = [action],
       trendingTopics = [\<lparr> topic = topCategory d, growth = 0, relevance = 100 \<rparr>],
       analysisTimestamp = new_Date,
       model = OLLAMA_MODEL env @ ''-'' @ mdl,
       tokenUsage = \<lparr> tu_input = 0, tu_output = 0, tu_total = 0 \<rparr> \<rparr>"

definition heuristicAnalysis :: "string option \<Rightarrow> int \<Rightarrow> int \<Rightarrow> NormalizedData \<Rightarrow> LLMAnalysisResult" where
  "heuristicAnalysis env Date_now new_Date d =
     (let risk = calculateRisk d;
          summary = defaultSummary d;
          action = defaultAction d
      in buildResult env Date_now new_Date d risk summary action ''heuristic'')"

text \<open>
  The \<^verbatim>\<open>try\<close>/\<^verbatim>\<open>catch\<close> of \<^verbatim>\<open>LLMAnalyzer.analyze\<close>, from the call of the
  endpoint on: \<open>response\<close> is what \<^verbatim>\<open>callOllama\<close> returned or threw (a timeout aborts
  the request, which throws), \<open>parseResponse\<close> the parser of the answer.
\<close>

definition analyze_enrich ::
  "(string \<Rightarrow> NormalizedData \<Rightarrow> thrown + LLMAnalysisResult) \<Rightarrow> string option \<Rightarrow> int \<Rightarrow> int
     \<Rightarrow> thrown + string \<Rightarrow> NormalizedData \<Rightarrow> LLMAnalysisResult" where
  "analyze_enrich parseResponse env Date_now new_Date response normalized =
     (case response of
        Inl _ \<Rightarrow> heuristicAnalysis env Date_now new_Date normalized
      | Inr raw \<Rightarrow>
          (case parseResponse raw normalized of
             Inl _ \<Rightarrow> heuristicAnalysis env Date_now new_Date normalized
           | Inr result \<Rightarrow> result))"

subsection \<open>The fallback of \<^verbatim>\<open>CTIAgentSystem\<close>\<close>

record Analysis =
  summary :: string
  keyFindings :: "string list"
  riskLevel :: string
  riskScore :: int
  an_recommendations :: "string list"
  killChainPhase :: string

definition fallbackAnalysis :: "string \<Rightarrow> Analysis" where
  "fallbackAnalysis context =
     (let hasCritical = (includes_str context ''Critical:'' \<and> \<not> includes_str context ''Critical: 0'');
          hasVulns = includes_str context ''CVE-''
      in \<lparr> summary = ''Automated threat intelligence analysis based on Shodan infrastructure scans and X.com social monitoring.'',
           keyFindings =
             [if hasVulns then ''Known vulnerabilities detected in exposed infrastructure''
              else ''Infrastructure scan completed'',
              ''Remote access services (SSH/RDP/SMB) exposed to internet'',
              ''Social media monitoring active for threat indicators''],
           riskLevel = (if hasCritical then ''high'' else ''medium''),
           riskScore = (if hasCritical then 70 else 50),
           an_recommendations =
             [''Review and restrict exposed remote access services'',
              ''Patch systems with known vulnerabilities'',
              ''Implement network segmentation'',
              ''Enable multi-factor authentication'',
              ''Monitor for indicators of compromise''],
           killChainPhase = ''Reconnaissance'' \<rparr>)"

text \<open>
  \<^verbatim>\<open>runLLMAnalysis\<close>: what the call of the endpoint returned or threw decides between
  the parsed answer and the fallback.
\<close>

definition runLLMAnalysis ::
  "(string \<Rightarrow> thrown + Analysis) \<Rightarrow> thrown + string \<Rightarrow> string \<Rightarrow> Analysis" where
  "runLLMAnalysis parseTextResponse response context =
     (case response of
        Inl _ \<Rightarrow> fallbackAnalysis context
      | Inr text \<Rightarrow>
          (case parseTextResponse text of
             Inl _ \<Rightarrow> fallbackAnalysis context
           | Inr result \<Rightarrow> result))"

section \<open>Notions of the specification and sample data\<close>

text \<open>
  The recent bucket of the trend, in the words of the specification: the threats whose
  timestamp falls within the last hour, that is, after \<open>now - 1 h\<close> and not after
  \<open>now\<close>. The threats dated after \<open>now\<close> are no part of it.
\<close>

definition recentBucket :: "int \<Rightarrow> ThreatSignal list \<Rightarrow> ThreatSignal list" where
  "recentBucket now ts =
     filter (\<lambda>t. case timestamp t of
                   None \<Rightarrow> False
                 | Some ms \<Rightarrow> now - 3600000 < ms \<and> ms \<le> now) ts"

definition datedAfterNow :: "int \<Rightarrow> ThreatSignal list \<Rightarrow> ThreatSignal list" where
  "datedAfterNow now ts =
     filter (\<lambda>t. case timestamp t of None \<Rightarrow> False | Some ms \<Rightarrow> now < ms) ts"


text \<open>A timer that fires exactly when the delay has passed (after 1 ms for no finite delay).\<close>

definition exactSleep :: "jsnum \<Rightarrow> World \<Rightarrow> World" where
  "exactSleep d w = w\<lparr>clock := clock w + (case d of Num x \<Rightarrow> \<lceil>x\<rceil> | PosInfinity \<Rightarrow> 1)\<rparr>"


text \<open>Sample data of the theorems' instances.\<close>

definition sampleSignal :: "string \<Rightarrow> int \<Rightarrow> int \<Rightarrow> TemporalAnalysis option \<Rightarrow> CorrelationSignal" where
  "sampleSignal lbl infra social ta =
     \<lparr> sig_id = ''sig_'' @ lbl, label = lbl,
       sources = [\<lparr> source = SHODAN, count = infra, sampleData = Some [''203.0.113.7''],
                     lastSeen = ''2025-01-01T00:00:00.000Z'' \<rparr>,
                  \<lparr> source = X_COM, count = social, sampleData = Some [''post''],
                     lastSeen = ''2025-01-01T05:00:00.000Z'' \<rparr>],
       temporalAnalysis = ta \<rparr>"


text \<open>
  The cache lifetime in effect on a read: the value of the environment when it is a
  number other than 0, the configured one otherwise.
\<close>

definition ttlHoursInEffect :: "Env \<Rightarrow> Scraper \<Rightarrow> int" where
  "ttlHoursInEffect env sc =
     (case CACHE_TTL_HOURS env of
        None \<Rightarrow> ttlHours (cache (config sc))
      | Some n \<Rightarrow> if n = 0 then ttlHours (cache (config sc)) else n)"

text \<open>The message \<^verbatim>\<open>execute\<close> reports for a thrown value.\<close>

definition messageOf :: "thrown \<Rightarrow> string" where
  "messageOf err = (case err of Error m \<Rightarrow> m | NotAnError \<Rightarrow> ''Unknown error'')"

text \<open>
  The configuration the pipeline builds for its scrapers (five requests per minute,
  a cooldown of 2000 ms, a cache of 24 hours), a scraper and a world around it, and a
  small runtime whose payloads are strings.
\<close>

definition sampleConfig :: "bool \<Rightarrow> ScraperConfig" where
  "sampleConfig en =
     \<lparr> enabled = en, config_source = SHODAN,
       rateLimit = \<lparr> requestsPerMinute = 5, cooldownMs = 2000 \<rparr>,
       cache = \<lparr> cache_enabled = True, ttlHours = 24 \<rparr>,
       queries = [] \<rparr>"

definition sampleScraper :: "bool \<Rightarrow> int \<Rightarrow> Scraper" where
  "sampleScraper en t0 =
     \<lparr> config = sampleConfig en, cacheDir = ''./DATA/cti-cache'', lastRequestTime = t0 \<rparr>"

definition sampleWorld :: "int \<Rightarrow> (string \<times> string) list \<Rightarrow> World" where
  "sampleWorld now fs = \<lparr> clock = now, files = map_of fs, writable = (\<lambda>p. True) \<rparr>"

definition sampleEnv :: Env where
  "sampleEnv = \<lparr> USE_CACHE = Some ''true'', CACHE_TTL_HOURS = None \<rparr>"

definition sampleParseMetadata :: "string \<Rightarrow> thrown + parsed_metadata" where
  "sampleParseMetadata raw =
     (if raw = ''null'' then Inr MetaNull
      else if raw = ''created 1000, checksum of payload''
      then Inr (MetaValue (Some 1000) (Some ''digest of payload''))
      else if raw = ''created 2025-10-25T10:00:00.000Z, checksum of payload''
      then Inr (MetaValue (Some 1761386400000) (Some ''digest of payload''))
      else Inl (Error ''SyntaxError''))"

text \<open>
  Two time zones: UTC, and one that is two hours ahead of UTC until the instant
  \<open>change\<close> and one hour ahead from then on, as Central Europe is around the end of
  summer time (2025-10-26T01:00:00Z is the instant 1761440400000).
\<close>

definition utcZone :: "int \<Rightarrow> bool \<Rightarrow> int" where
  "utcZone t isUTC = 0"

definition summerTimeEnds :: "int \<Rightarrow> int \<Rightarrow> bool \<Rightarrow> int" where
  "summerTimeEnds change t isUTC =
     (if isUTC then (if t < change then 7200000 else 3600000)
      else (if t < change + 7200000 then 7200000 else 3600000))"

definition sampleRuntime :: "string Runtime" where
  "sampleRuntime =
     \<lparr> md5_hex = (\<lambda>s. ''digest of '' @ s),
       JSON_parse_metadata = sampleParseMetadata,
       JSON_parse_data = (\<lambda>s. Inr (Some s)),
       JSON_stringify_data = (\<lambda>d. d),
       JSON_stringify_metadata = (\<lambda>m. ''created 1000, checksum of payload''),
       LocalTZA = utcZone \<rparr>"

definition failingScrape :: "string \<Rightarrow> Scraper \<Rightarrow> World \<Rightarrow> (thrown + string) \<times> Scraper \<times> World" where
  "failingScrape msg sc w = (Inl (Error msg), sc, w\<lparr>clock := clock w + 30000\<rparr>)"

text \<open>A heuristic result with what it took from the clock blanked out.\<close>

definition withoutClock :: "LLMAnalysisResult \<Rightarrow> LLMAnalysisResult" where
  "withoutClock r =
     r\<lparr> insights := map (\<lambda>i. i\<lparr>insight_id := []\<rparr>) (insights r), analysisTimestamp := 0 \<rparr>"

definition sampleNormalized :: NormalizedData where
  "sampleNormalized =
     \<lparr> threatCount = 3, critical = 2, high = 1, medium = 0, topCategory = ''vulnerability'',
       topThreats = [\<lparr> sev = ''C'', cat = ''VUL'', tt_title = ''Exposed SSH'' \<rparr>],
       iocCounts = [(''cve'', 2), (''ip'', 1)],
       cves = [''CVE-2024-3094'', ''CVE-2023-4863''],
       nd_sources = [''shodan'', ''x.com''] \<rparr>"

definition unparsable :: "string \<Rightarrow> NormalizedData \<Rightarrow> thrown + LLMAnalysisResult" where
  "unparsable raw d = Inl (Error ''unparsable'')"

definition sampleThreat :: "string \<Rightarrow> ThreatSignal" where
  "sampleThreat t =
     \<lparr> threat_id = ''threat_1'', title = t, severity = ''high'', category = ''infrastructure'',
       timestamp = Some 1700000000000 \<rparr>"

section \<open>Properties of the risk scorer\<close>

lemma Math_round_of_int: "Math_round (of_int n) = n"
  unfolding Math_round_def by linarith

lemma calculateRiskScore_int:
  "calculateRiskScore c h m l = min 100 (c * 40 + h * 20 + m * 5 + l)"
proof -
  have "(of_int c * 40) + (of_int h * 20) + (of_int m * 5) + (of_int l * 1)
          = (of_int (c * 40 + h * 20 + m * 5 + l) :: rat)"
    by simp
  then have "Math_round ((of_int c * 40) + (of_int h * 20) + (of_int m * 5) + (of_int l * 1))
               = c * 40 + h * 20 + m * 5 + l"
    by (simp only: Math_round_of_int)
  then show ?thesis
    by (simp add: calculateRiskScore_def Let_def)
qed

text \<open>
  C1. For non-negative counts the score is \<open>min(100, round(critical*40 + high*20 +
  medium*5 + low*1))\<close>, which on whole counts is the weighted sum capped at 100; the
  level is critical exactly from 75 on, elevated exactly on 45..74, moderate exactly on
  15..44 and low below 15; two critical and one high signal give score 100 and level
  critical.
\<close>

theorem risk_score_and_level:
  assumes "0 \<le> c" and "0 \<le> h" and "0 \<le> m" and "0 \<le> l"
  shows "calculateRiskScore c h m l
           = min 100 (Math_round (of_int c * 40 + of_int h * 20 + of_int m * 5 + of_int l * 1))
       \<and> calculateRiskScore c h m l = min 100 (c * 40 + h * 20 + m * 5 + l * 1)
       \<and> (determineRiskLevel s = Critical) = (s \<ge> 75)
       \<and> (determineRiskLevel s = Elevated) = (45 \<le> s \<and> s < 75)
       \<and> (determineRiskLevel s = Moderate) = (15 \<le> s \<and> s < 45)
       \<and> (determineRiskLevel s = Low) = (s < 15)
       \<and> calculateRiskScore 2 1 0 0 = 100
       \<and> determineRiskLevel (calculateRiskScore 2 1 0 0) = Critical"
proof -
  have formula: "calculateRiskScore c h m l
           = min 100 (Math_round (of_int c * 40 + of_int h * 20 + of_int m * 5 + of_int l * 1))"
    by (simp add: calculateRiskScore_def Let_def)
  have whole: "calculateRiskScore c h m l = min 100 (c * 40 + h * 20 + m * 5 + l * 1)"
    by (simp add: calculateRiskScore_int)
  have levels: "(determineRiskLevel s = Critical) = (s \<ge> 75)"
      "(determineRiskLevel s = Elevated) = (45 \<le> s \<and> s < 75)"
      "(determineRiskLevel s = Moderate) = (15 \<le> s \<and> s < 45)"
      "(determineRiskLevel s = Low) = (s < 15)"
    by (auto simp add: determineRiskLevel_def)
  have scenario: "calculateRiskScore 2 1 0 0 = 100"
    by (simp add: calculateRiskScore_int)
  have "determineRiskLevel (calculateRiskScore 2 1 0 0) = Critical"
    by (simp add: scenario determineRiskLevel_def)
  with formula whole levels scenario show ?thesis
    by blast
qed

theorem risk_score_and_level_witness:
  "calculateRiskScore 1 1 1 1 = 66 \<and> determineRiskLevel 66 = Elevated
     \<and> determineRiskLevel 75 = Critical \<and> determineRiskLevel 74 = Elevated
     \<and> determineRiskLevel 45 = Elevated \<and> determineRiskLevel 44 = Moderate
     \<and> determineRiskLevel 15 = Moderate \<and> determineRiskLevel 14 = Low"
  using risk_score_and_level [of 1 1 1 1 66] risk_score_and_level [of 1 1 1 1 75]
    risk_score_and_level [of 1 1 1 1 74] risk_score_and_level [of 1 1 1 1 45]
    risk_score_and_level [of 1 1 1 1 44] risk_score_and_level [of 1 1 1 1 15]
    risk_score_and_level [of 1 1 1 1 14]
  by simp

text \<open>
  C8. For non-negative counts, one more critical signal never lowers the score, and the
  score lies between 0 and 100.
\<close>

theorem risk_score_monotone_bounded:
  assumes "0 \<le> c" and "0 \<le> h" and "0 \<le> m" and "0 \<le> l"
  shows "calculateRiskScore c h m l \<le> calculateRiskScore (c + 1) h m l
       \<and> 0 \<le> calculateRiskScore c h m l
       \<and> calculateRiskScore c h m l \<le> 100"
  using assms by (simp add: calculateRiskScore_int)

theorem risk_score_monotone_bounded_witness:
  "calculateRiskScore 1 0 3 2 \<le> calculateRiskScore (1 + 1) 0 3 2
     \<and> 0 \<le> calculateRiskScore 1 0 3 2 \<and> calculateRiskScore 1 0 3 2 \<le> 100
     \<and> calculateRiskScore 1 0 3 2 = 57 \<and> calculateRiskScore 2 0 3 2 = 97"
  using risk_score_monotone_bounded [of 1 0 3 2] by (simp add: calculateRiskScore_int)

section \<open>Properties of the trend\<close>

text \<open>
  The threats that the code counts as recent are those of the last hour together with
  those dated after \<open>now\<close>.
\<close>

lemma recentCount_split:
  "length (filter (\<lambda>t. case timestamp t of None \<Rightarrow> False | Some ms \<Rightarrow> ms > now - 3600000) ts)
     = length (recentBucket now ts) + length (datedAfterNow now ts)"
proof (induction ts)
  case Nil
  show ?case
    by (simp add: recentBucket_def datedAfterNow_def)
next
  case (Cons t ts)
  then show ?case
    by (cases "timestamp t") (auto simp add: recentBucket_def datedAfterNow_def)
qed

lemma half_iff: "((of_nat r :: rat) > of_nat n * (5 / 10)) = (n < 2 * r)"
proof -
  have "((of_nat r :: rat) > of_nat n * (5 / 10)) = ((of_nat n :: rat) < of_nat (2 * r))"
    by (simp add: field_simps)
  also have "\<dots> = (n < 2 * r)"
    by (simp only: of_nat_less_iff)
  finally show ?thesis .
qed

lemma fifth_iff: "((of_nat r :: rat) < of_nat n * (2 / 10)) = (5 * r < n)"
proof -
  have "((of_nat r :: rat) < of_nat n * (2 / 10)) = ((of_nat (5 * r) :: rat) < of_nat n)"
    by (simp add: field_simps)
  also have "\<dots> = (5 * r < n)"
    by (simp only: of_nat_less_iff)
  finally show ?thesis .
qed

lemma determineTrend_counts:
  "determineTrend now ts
     = (if length ts < 2 * (length (recentBucket now ts) + length (datedAfterNow now ts))
        then Increasing
        else if 5 * (length (recentBucket now ts) + length (datedAfterNow now ts)) < length ts
        then Decreasing else Stable)"
  unfolding determineTrend_def Let_def recentCount_split half_iff fifth_iff
  by (rule refl)

text \<open>
  C9, amended. The test of the code is \<^verbatim>\<open>getTime() > hourAgo\<close> alone, so the
  threats dated after \<open>now\<close> count as recent with those of the last hour. With
  \<open>recent\<close> the number of threats of the last hour, \<open>later\<close> the number of threats
  dated after \<open>now\<close> and \<open>total\<close> the number of threats, the trend is increasing exactly
  when \<open>recent + later > 0.5 * total\<close>, decreasing exactly when that fails and
  \<open>recent + later < 0.2 * total\<close>, and stable otherwise; with no threats it is stable.
  When no threat is dated after \<open>now\<close>, the trend is increasing exactly when
  \<open>recent > 0.5 * total\<close>, decreasing exactly when that fails and
  \<open>recent < 0.2 * total\<close>, and stable otherwise.
\<close>

theorem determineTrend_thresholds:
  "(determineTrend now ts = Increasing)
      = ((of_nat (length (recentBucket now ts) + length (datedAfterNow now ts)) :: rat)
           > (5 / 10) * of_nat (length ts))
   \<and> (determineTrend now ts = Decreasing)
      = (\<not> (of_nat (length (recentBucket now ts) + length (datedAfterNow now ts)) :: rat)
             > (5 / 10) * of_nat (length ts)
         \<and> (of_nat (length (recentBucket now ts) + length (datedAfterNow now ts)) :: rat)
             < (2 / 10) * of_nat (length ts))
   \<and> (determineTrend now ts = Stable)
      = (\<not> (of_nat (length (recentBucket now ts) + length (datedAfterNow now ts)) :: rat)
             > (5 / 10) * of_nat (length ts)
         \<and> \<not> (of_nat (length (recentBucket now ts) + length (datedAfterNow now ts)) :: rat)
             < (2 / 10) * of_nat (length ts))
   \<and> determineTrend now [] = Stable
   \<and> (datedAfterNow now ts = [] \<longrightarrow>
        (determineTrend now ts = Increasing)
           = ((of_nat (length (recentBucket now ts)) :: rat) > (5 / 10) * of_nat (length ts))
        \<and> (determineTrend now ts = Decreasing)
           = (\<not> (of_nat (length (recentBucket now ts)) :: rat) > (5 / 10) * of_nat (length ts)
              \<and> (of_nat (length (recentBucket now ts)) :: rat) < (2 / 10) * of_nat (length ts))
        \<and> (determineTrend now ts = Stable)
           = (\<not> (of_nat (length (recentBucket now ts)) :: rat) > (5 / 10) * of_nat (length ts)
              \<and> \<not> (of_nat (length (recentBucket now ts)) :: rat) < (2 / 10) * of_nat (length ts)))"
proof -
  define r where "r = length (recentBucket now ts) + length (datedAfterNow now ts)"
  define n where "n = length ts"
  have h: "((of_nat r :: rat) > (5 / 10) * of_nat n) = (n < 2 * r)"
    using half_iff [of n r] by (simp add: mult.commute)
  have f: "((of_nat r :: rat) < (2 / 10) * of_nat n) = (5 * r < n)"
    using fifth_iff [of r n] by (simp add: mult.commute)
  have d: "determineTrend now ts
             = (if n < 2 * r then Increasing else if 5 * r < n then Decreasing else Stable)"
    unfolding r_def n_def by (rule determineTrend_counts)
  have e: "determineTrend now [] = Stable"
    by (simp add: determineTrend_def)
  have main: "(determineTrend now ts = Increasing) = ((of_nat r :: rat) > (5 / 10) * of_nat n)
      \<and> (determineTrend now ts = Decreasing)
          = (\<not> (of_nat r :: rat) > (5 / 10) * of_nat n \<and> (of_nat r :: rat) < (2 / 10) * of_nat n)
      \<and> (determineTrend now ts = Stable)
          = (\<not> (of_nat r :: rat) > (5 / 10) * of_nat n \<and> \<not> (of_nat r :: rat) < (2 / 10) * of_nat n)"
    unfolding h f d by auto
  have none: "datedAfterNow now ts = [] \<Longrightarrow> r = length (recentBucket now ts)"
    by (simp add: r_def)
  from main e none show ?thesis
    unfolding r_def [symmetric] n_def [symmetric] by metis
qed

theorem determineTrend_thresholds_witness:
  "datedAfterNow 7200000
     [\<lparr> threat_id = ''a'', title = ''t'', severity = ''high'', category = ''apt'', timestamp = Some 7000000 \<rparr>,
      \<lparr> threat_id = ''b'', title = ''t'', severity = ''high'', category = ''apt'', timestamp = Some 3600000 \<rparr>,
      \<lparr> threat_id = ''c'', title = ''t'', severity = ''high'', category = ''apt'', timestamp = None \<rparr>]
     = []
   \<and> determineTrend 7200000
     [\<lparr> threat_id = ''a'', title = ''t'', severity = ''high'', category = ''apt'', timestamp = Some 7000000 \<rparr>,
      \<lparr> threat_id = ''b'', title = ''t'', severity = ''high'', category = ''apt'', timestamp = Some 3600000 \<rparr>,
      \<lparr> threat_id = ''c'', title = ''t'', severity = ''high'', category = ''apt'', timestamp = None \<rparr>]
     = Stable"
  using determineTrend_thresholds [of 7200000
     "[\<lparr> threat_id = ''a'', title = ''t'', severity = ''high'', category = ''apt'', timestamp = Some 7000000 \<rparr>,
      \<lparr> threat_id = ''b'', title = ''t'', severity = ''high'', category = ''apt'', timestamp = Some 3600000 \<rparr>,
      \<lparr> threat_id = ''c'', title = ''t'', severity = ''high'', category = ''apt'', timestamp = None \<rparr>]"]
  by (simp add: recentBucket_def datedAfterNow_def)

text \<open>
  C9, as stated, fails for threats dated after \<open>now\<close>. Of two threats dated five
  minutes after \<open>now\<close> none falls within the last hour, so that
  \<open>recent < 0.2 * total\<close>, and the trend is increasing.
\<close>

theorem threats_dated_after_now_increasing:
  "determineTrend 7200000
     [\<lparr> threat_id = ''a'', title = ''t'', severity = ''high'', category = ''apt'', timestamp = Some 7500000 \<rparr>,
      \<lparr> threat_id = ''b'', title = ''t'', severity = ''high'', category = ''apt'', timestamp = Some 7500000 \<rparr>]
     = Increasing
   \<and> recentBucket 7200000
     [\<lparr> threat_id = ''a'', title = ''t'', severity = ''high'', category = ''apt'', timestamp = Some 7500000 \<rparr>,
      \<lparr> threat_id = ''b'', title = ''t'', severity = ''high'', category = ''apt'', timestamp = Some 7500000 \<rparr>]
     = []
   \<and> (of_nat (length (recentBucket 7200000
     [\<lparr> threat_id = ''a'', title = ''t'', severity = ''high'', category = ''apt'', timestamp = Some 7500000 \<rparr>,
      \<lparr> threat_id = ''b'', title = ''t'', severity = ''high'', category = ''apt'', timestamp = Some 7500000 \<rparr>])) :: rat)
      < (2 / 10) * of_nat (length
     [\<lparr> threat_id = ''a'', title = ''t'', severity = ''high'', category = ''apt'', timestamp = Some 7500000 \<rparr>,
      \<lparr> threat_id = ''b'', title = ''t'', severity = ''high'', category = ''apt'', timestamp = Some 7500000 \<rparr>])"
  by (simp add: determineTrend_def recentBucket_def)

section \<open>Properties of the correlation section\<close>











section \<open>Properties of the temporal interpretation\<close>

lemma toFixed1_half: "toFixed1 (1 / 2) = ''0.5''"
  by code_simp

lemma toFixed1_five: "toFixed1 5 = ''5.0''"
  by code_simp

lemma simultaneous_not_scanning:
  "''Infrastructure scanning of '' @ l @ '' detected '' @ x
       @ ''h before social discussion, indicating reconnaissance activity.''
     \<noteq> l @ '' activity detected simultaneously in infrastructure and social channels.''"
proof
  assume "''Infrastructure scanning of '' @ l @ '' detected '' @ x
       @ ''h before social discussion, indicating reconnaissance activity.''
     = l @ '' activity detected simultaneously in infrastructure and social channels.''"
  then have "rev (''Infrastructure scanning of '' @ l @ '' detected '' @ x
       @ ''h before social discussion, indicating reconnaissance activity.'')
     = rev (l @ '' activity detected simultaneously in infrastructure and social channels.'')"
    by (rule arg_cong)
  then show False
    by simp
qed

lemma simultaneous_not_exposure:
  "l @ '' infrastructure exposure detected '' @ x @ ''h before social awareness emerged.''
     \<noteq> l @ '' activity detected simultaneously in infrastructure and social channels.''"
  by simp

lemma simultaneous_not_social:
  "''Social discussion of '' @ l @ '' preceded infrastructure detection by '' @ x
       @ ''h, suggesting threat awareness before observable exposure.''
     \<noteq> l @ '' activity detected simultaneously in infrastructure and social channels.''"
proof
  assume "''Social discussion of '' @ l @ '' preceded infrastructure detection by '' @ x
       @ ''h, suggesting threat awareness before observable exposure.''
     = l @ '' activity detected simultaneously in infrastructure and social channels.''"
  then have "rev (''Social discussion of '' @ l @ '' preceded infrastructure detection by '' @ x
       @ ''h, suggesting threat awareness before observable exposure.'')
     = rev (l @ '' activity detected simultaneously in infrastructure and social channels.'')"
    by (rule arg_cong)
  then show False
    by simp
qed

text \<open>
  C4, as stated, fails for a delta of less than one hour that is not 0: with a delta of
  half an hour and the infrastructure first, the signal is reported as infrastructure
  first, not as simultaneous.
\<close>

theorem interpretation_half_hour_not_simultaneous:
  "\<bar>1 / 2 :: rat\<bar> < 1
   \<and> generateInterpretation
        (sampleSignal ''ssh'' 1 1
           (Some \<lparr> timeDeltaHours = Some (1 / 2), infraPrecedesSocial = True,
                   pattern = ''infra-first'' \<rparr>))
       = ''ssh infrastructure exposure detected 0.5h before social awareness emerged.''
   \<and> generateInterpretation
        (sampleSignal ''ssh'' 1 1
           (Some \<lparr> timeDeltaHours = Some (1 / 2), infraPrecedesSocial = True,
                   pattern = ''infra-first'' \<rparr>))
       \<noteq> ''ssh activity detected simultaneously in infrastructure and social channels.''"
  by (simp add: generateInterpretation_def sampleSignal_def toFixed1_half Let_def)

text \<open>
  C4, amended. A signal is reported as simultaneous exactly when it has no
  \<open>timeDeltaHours\<close> or the delta is 0 (no error arises there). For every other delta,
  also one of less than an hour, the sentence follows the flag \<open>infraPrecedesSocial\<close>:
  infrastructure first when it is set, social first when it is not. With the flag being
  \<open>delta > 0\<close>, a positive delta is reported as infrastructure first and a negative one
  as social first.
\<close>

theorem interpretation_classification:
  "(generateInterpretation sig
      = label sig @ '' activity detected simultaneously in infrastructure and social channels.'')
     = (case temporalAnalysis sig of
          None \<Rightarrow> True
        | Some ta \<Rightarrow> timeDeltaHours ta = None \<or> timeDeltaHours ta = Some 0)
   \<and> (temporalAnalysis sig = Some ta \<and> timeDeltaHours ta = Some d \<and> d \<noteq> 0
        \<and> infraPrecedesSocial ta \<longrightarrow>
      generateInterpretation sig
        = (if pattern ta = ''scanning''
           then ''Infrastructure scanning of '' @ label sig @ '' detected '' @ toFixed1 \<bar>d\<bar>
                  @ ''h before social discussion, indicating reconnaissance activity.''
           else label sig @ '' infrastructure exposure detected '' @ toFixed1 \<bar>d\<bar>
                  @ ''h before social awareness emerged.''))
   \<and> (temporalAnalysis sig = Some ta \<and> timeDeltaHours ta = Some d \<and> d \<noteq> 0
        \<and> \<not> infraPrecedesSocial ta \<longrightarrow>
      generateInterpretation sig
        = ''Social discussion of '' @ label sig @ '' preceded infrastructure detection by ''
            @ toFixed1 \<bar>d\<bar> @ ''h, suggesting threat awareness before observable exposure.'')
   \<and> (temporalAnalysis sig = Some ta \<and> timeDeltaHours ta = Some d
        \<and> infraPrecedesSocial ta = (d > 0) \<and> d > 0 \<longrightarrow>
      generateInterpretation sig
        = (if pattern ta = ''scanning''
           then ''Infrastructure scanning of '' @ label sig @ '' detected '' @ toFixed1 \<bar>d\<bar>
                  @ ''h before social discussion, indicating reconnaissance activity.''
           else label sig @ '' infrastructure exposure detected '' @ toFixed1 \<bar>d\<bar>
                  @ ''h before social awareness emerged.''))
   \<and> (temporalAnalysis sig = Some ta \<and> timeDeltaHours ta = Some d
        \<and> infraPrecedesSocial ta = (d > 0) \<and> d < 0 \<longrightarrow>
      generateInterpretation sig
        = ''Social discussion of '' @ label sig @ '' preceded infrastructure detection by ''
            @ toFixed1 \<bar>d\<bar> @ ''h, suggesting threat awareness before observable exposure.'')"
proof (intro conjI impI)
  show "(generateInterpretation sig
      = label sig @ '' activity detected simultaneously in infrastructure and social channels.'')
     = (case temporalAnalysis sig of
          None \<Rightarrow> True
        | Some ta \<Rightarrow> timeDeltaHours ta = None \<or> timeDeltaHours ta = Some 0)"
    unfolding generateInterpretation_def Let_def
    using simultaneous_not_scanning simultaneous_not_exposure simultaneous_not_social
    by (simp split: option.splits)
qed (simp_all add: generateInterpretation_def Let_def)

theorem interpretation_classification_witness:
  "generateInterpretation
     (sampleSignal ''ssh'' 1 1
        (Some \<lparr> timeDeltaHours = Some 5, infraPrecedesSocial = True, pattern = ''scanning'' \<rparr>))
     = ''Infrastructure scanning of ssh detected 5.0h before social discussion, indicating reconnaissance activity.''
   \<and> generateInterpretation
     (sampleSignal ''ssh'' 1 1
        (Some \<lparr> timeDeltaHours = Some (- 5), infraPrecedesSocial = False, pattern = ''social-first'' \<rparr>))
     = ''Social discussion of ssh preceded infrastructure detection by 5.0h, suggesting threat awareness before observable exposure.''
   \<and> generateInterpretation
     (sampleSignal ''ssh'' 1 1
        (Some \<lparr> timeDeltaHours = Some 0, infraPrecedesSocial = False, pattern = ''simultaneous'' \<rparr>))
     = ''ssh activity detected simultaneously in infrastructure and social channels.''"
  using
    interpretation_classification [of
      "sampleSignal ''ssh'' 1 1
        (Some \<lparr> timeDeltaHours = Some 5, infraPrecedesSocial = True, pattern = ''scanning'' \<rparr>)"
      "\<lparr> timeDeltaHours = Some 5, infraPrecedesSocial = True, pattern = ''scanning'' \<rparr>" 5]
    interpretation_classification [of
      "sampleSignal ''ssh'' 1 1
        (Some \<lparr> timeDeltaHours = Some (- 5), infraPrecedesSocial = False, pattern = ''social-first'' \<rparr>)"
      "\<lparr> timeDeltaHours = Some (- 5), infraPrecedesSocial = False, pattern = ''social-first'' \<rparr>" "- 5"]
    interpretation_classification [of
      "sampleSignal ''ssh'' 1 1
        (Some \<lparr> timeDeltaHours = Some 0, infraPrecedesSocial = False, pattern = ''simultaneous'' \<rparr>)"
      "\<lparr> timeDeltaHours = Some 0, infraPrecedesSocial = False, pattern = ''simultaneous'' \<rparr>" 0]
  by (simp add: sampleSignal_def toFixed1_five)

section \<open>Properties of the scraper cache\<close>

lemma loadFromCache_returns: "\<exists>r. loadFromCache rt env sc w = Inr r"
  by (cases "loadFromCache_try rt env sc w") (simp_all add: loadFromCache_def)

lemma loadFromCache_metadata_missing:
  assumes "files w (getCacheMetadataPath sc) = None"
  shows "loadFromCache rt env sc w = Inr None"
  using assms by (simp add: loadFromCache_def loadFromCache_try_def fs_access_def Let_def)

lemma loadFromCache_payload_missing:
  assumes "files w (getCachePath sc) = None"
  shows "loadFromCache rt env sc w = Inr None"
  using assms
  by (simp add: loadFromCache_def loadFromCache_try_def fs_access_def Let_def split: option.splits)

lemma loadFromCache_metadata_unreadable:
  assumes "files w (getCacheMetadataPath sc) = Some raw"
    and "JSON_parse_metadata rt raw = Inl e \<or> JSON_parse_metadata rt raw = Inr MetaNull"
  shows "loadFromCache rt env sc w = Inr None"
  using assms
  by (auto simp add: loadFromCache_def loadFromCache_try_def fs_access_def fs_readFile_def Let_def
      split: option.splits)

lemma loadFromCache_expired:
  assumes "files w (getCacheMetadataPath sc) = Some raw"
    and "JSON_parse_metadata rt raw = Inr (MetaValue (Some created) stored)"
    and "clock w > setHours rt created (getHours rt created + ttlHoursInEffect env sc)"
  shows "loadFromCache rt env sc w = Inr None"
proof -
  have hours: "(case CACHE_TTL_HOURS env of
                  None \<Rightarrow> ttlHours (cache (config sc))
                | Some n \<Rightarrow> if n \<noteq> 0 then n else ttlHours (cache (config sc)))
               = ttlHoursInEffect env sc"
    by (simp add: ttlHoursInEffect_def split: option.splits)
  show ?thesis
    using assms unfolding loadFromCache_def loadFromCache_try_def Let_def hours
    by (simp add: fs_access_def fs_readFile_def split: option.splits)
qed

lemma loadFromCache_checksum_mismatch:
  assumes "files w (getCacheMetadataPath sc) = Some raw"
    and "JSON_parse_metadata rt raw = Inr (MetaValue created stored)"
    and "files w (getCachePath sc) = Some dataRaw"
    and "stored \<noteq> Some (generateChecksum rt dataRaw)"
  shows "loadFromCache rt env sc w = Inr None"
  using assms
  by (auto simp add: loadFromCache_def loadFromCache_try_def fs_access_def fs_readFile_def Let_def
      split: option.splits)

text \<open>
  Adding \<open>n\<close> to the local hour moves the local date and time on by \<open>n\<close> hours; the
  instant that comes of it depends on the offset of the zone there.
\<close>

lemma time_parts:
  fixes t :: int
  assumes "D = H * 24" and "H = M * 60" and "M = S * 60"
  shows "t div D * D + ((t div H mod 24 + n) * H + t div M mod 60 * M + t div S mod 60 * S + t mod S)
           = t + n * H"
proof -
  have d: "t = t div D * D + t mod D"
    by simp
  have h: "t mod D = H * (t div H mod 24) + t mod H"
    using zmod_zmult2_eq [of 24 t H] assms(1) by simp
  have m: "t mod H = M * (t div M mod 60) + t mod M"
    using zmod_zmult2_eq [of 60 t M] assms(2) by simp
  have s: "t mod M = S * (t div S mod 60) + t mod S"
    using zmod_zmult2_eq [of 60 t S] assms(3) by simp
  have "t div D * D + ((t div H mod 24 + n) * H + t div M mod 60 * M + t div S mod 60 * S + t mod S)
          = t div D * D + (H * (t div H mod 24) + (M * (t div M mod 60) + (S * (t div S mod 60) + t mod S))) + n * H"
    by (simp add: algebra_simps)
  also have "\<dots> = t div D * D + t mod D + n * H"
    unfolding h m s by simp
  also have "\<dots> = t + n * H"
    using d by simp
  finally show ?thesis .
qed

lemma local_time_parts:
  "MakeDate (Day t) (MakeTime (HourFromTime t + n) (MinFromTime t) (SecFromTime t) (msFromTime t))
     = t + n * msPerHour"
  unfolding MakeDate_def MakeTime_def Day_def HourFromTime_def MinFromTime_def SecFromTime_def
    msFromTime_def
  by (rule time_parts) (simp_all add: msPerDay_def msPerHour_def msPerMinute_def msPerSecond_def)

lemma setHours_adds_hours:
  "setHours rt t (getHours rt t + n) = UTC rt (LocalTime rt t + n * msPerHour)"
  by (simp add: setHours_def getHours_def Let_def local_time_parts)

lemma setHours_steady_zone:
  assumes "LocalTZA rt t True \<le> LocalTZA rt (LocalTime rt t + n * msPerHour) False"
  shows "setHours rt t (getHours rt t + n) \<le> t + n * 3600000"
  using assms by (simp add: setHours_adds_hours UTC_def LocalTime_def msPerHour_def)

text \<open>
  What the cache read does achieve. It throws in no state. It returns MISS when the
  metadata file is missing or cannot be read, parsed or used, and when the checksum
  recomputed from the payload differs from the stored one. It returns MISS when the
  clock is past \<open>createdAt\<close> plus the lifetime in effect, provided the offset of the
  zone at the expiry is not smaller than it was at the creation.
\<close>

lemma cache_read_miss_cases:
  "(\<exists>r. loadFromCache rt env sc w = Inr r)
   \<and> (files w (getCacheMetadataPath sc) = None \<longrightarrow> loadFromCache rt env sc w = Inr None)
   \<and> (files w (getCacheMetadataPath sc) = Some raw
        \<and> (JSON_parse_metadata rt raw = Inl e \<or> JSON_parse_metadata rt raw = Inr MetaNull) \<longrightarrow>
      loadFromCache rt env sc w = Inr None)
   \<and> (files w (getCacheMetadataPath sc) = Some raw
        \<and> JSON_parse_metadata rt raw = Inr (MetaValue created (Some (generateChecksum rt written)))
        \<and> files w (getCachePath sc) = Some dataRaw
        \<and> generateChecksum rt dataRaw \<noteq> generateChecksum rt written \<longrightarrow>
      loadFromCache rt env sc w = Inr None)
   \<and> (files w (getCacheMetadataPath sc) = Some raw
        \<and> JSON_parse_metadata rt raw = Inr (MetaValue created stored)
        \<and> files w (getCachePath sc) = Some dataRaw
        \<and> stored \<noteq> Some (generateChecksum rt dataRaw) \<longrightarrow>
      loadFromCache rt env sc w = Inr None)
   \<and> (files w (getCacheMetadataPath sc) = Some raw
        \<and> JSON_parse_metadata rt raw = Inr (MetaValue (Some createdAt_ms) stored)
        \<and> LocalTZA rt createdAt_ms True
             \<le> LocalTZA rt (LocalTime rt createdAt_ms + ttlHoursInEffect env sc * msPerHour) False
        \<and> clock w > createdAt_ms + ttlHoursInEffect env sc * 3600000 \<longrightarrow>
      loadFromCache rt env sc w = Inr None)"
proof (intro conjI impI)
  show "\<exists>r. loadFromCache rt env sc w = Inr r"
    by (rule loadFromCache_returns)
next
  assume "files w (getCacheMetadataPath sc) = None"
  then show "loadFromCache rt env sc w = Inr None"
    by (rule loadFromCache_metadata_missing)
next
  assume "files w (getCacheMetadataPath sc) = Some raw
        \<and> (JSON_parse_metadata rt raw = Inl e \<or> JSON_parse_metadata rt raw = Inr MetaNull)"
  then show "loadFromCache rt env sc w = Inr None"
    using loadFromCache_metadata_unreadable by blast
next
  assume "files w (getCacheMetadataPath sc) = Some raw
        \<and> JSON_parse_metadata rt raw = Inr (MetaValue created (Some (generateChecksum rt written)))
        \<and> files w (getCachePath sc) = Some dataRaw
        \<and> generateChecksum rt dataRaw \<noteq> generateChecksum rt written"
  then show "loadFromCache rt env sc w = Inr None"
    using loadFromCache_checksum_mismatch [of w sc raw rt created "Some (generateChecksum rt written)" dataRaw]
    by auto
next
  assume "files w (getCacheMetadataPath sc) = Some raw
        \<and> JSON_parse_metadata rt raw = Inr (MetaValue created stored)
        \<and> files w (getCachePath sc) = Some dataRaw
        \<and> stored \<noteq> Some (generateChecksum rt dataRaw)"
  then show "loadFromCache rt env sc w = Inr None"
    using loadFromCache_checksum_mismatch by blast
next
  assume a: "files w (getCacheMetadataPath sc) = Some raw
        \<and> JSON_parse_metadata rt raw = Inr (MetaValue (Some createdAt_ms) stored)
        \<and> LocalTZA rt createdAt_ms True
             \<le> LocalTZA rt (LocalTime rt createdAt_ms + ttlHoursInEffect env sc * msPerHour) False
        \<and> clock w > createdAt_ms + ttlHoursInEffect env sc * 3600000"
  then have "setHours rt createdAt_ms (getHours rt createdAt_ms + ttlHoursInEffect env sc)
               \<le> createdAt_ms + ttlHoursInEffect env sc * 3600000"
    using setHours_steady_zone by blast
  with a have "clock w > setHours rt createdAt_ms (getHours rt createdAt_ms + ttlHoursInEffect env sc)"
    by linarith
  with a show "loadFromCache rt env sc w = Inr None"
    using loadFromCache_expired by blast
qed

lemma sample_paths:
  "getCacheMetadataPath (sampleScraper en t0) = ''./DATA/cti-cache/shodan-cache.meta.json''"
  "getCachePath (sampleScraper en t0) = ''./DATA/cti-cache/shodan-cache.json''"
  by (simp_all add: getCacheMetadataPath_def getCachePath_def path_join_def sourceValue_def
      sampleScraper_def sampleConfig_def)

lemma sample_ttl: "ttlHoursInEffect sampleEnv (sampleScraper en t0) = 24"
  by (simp add: ttlHoursInEffect_def sampleEnv_def sampleScraper_def sampleConfig_def)

lemma sample_config:
  "enabled (config (sampleScraper en t0)) = en"
  "cache_enabled (cache (config (sampleScraper en t0))) = True"
  "ttlHours (cache (config (sampleScraper en t0))) = 24"
  "requestsPerMinute (rateLimit (config (sampleScraper en t0))) = 5"
  "cooldownMs (rateLimit (config (sampleScraper en t0))) = 2000"
  "lastRequestTime (sampleScraper en t0) = t0"
  by (simp_all add: sampleScraper_def sampleConfig_def)

lemma sample_expiry_utc:
  "setHours sampleRuntime 1000 (getHours sampleRuntime 1000 + 24) = 86401000"
  by (simp add: setHours_adds_hours UTC_def LocalTime_def sampleRuntime_def utcZone_def
      msPerHour_def)

lemma sample_cache_hit:
  "loadFromCache sampleRuntime sampleEnv (sampleScraper True 0)
     (sampleWorld 2000
        [(''./DATA/cti-cache/shodan-cache.meta.json'', ''created 1000, checksum of payload''),
         (''./DATA/cti-cache/shodan-cache.json'', ''payload'')])
   = Inr (Some ''payload'')"
proof -
  have p: "JSON_parse_metadata sampleRuntime ''created 1000, checksum of payload''
             = Inr (MetaValue (Some 1000) (Some ''digest of payload''))"
    "md5_hex sampleRuntime ''payload'' = ''digest of payload''"
    "JSON_parse_data sampleRuntime ''payload'' = Inr (Some ''payload'')"
    by (simp_all add: sampleRuntime_def sampleParseMetadata_def)
  show ?thesis
    by (simp add: loadFromCache_def loadFromCache_try_def Let_def sample_paths fs_access_def
        fs_readFile_def sampleWorld_def sampleEnv_def generateChecksum_def sample_config
        sample_expiry_utc p)
qed

lemma sample_cache_miss:
  "loadFromCache sampleRuntime sampleEnv (sampleScraper True 0)
     (sampleWorld 2000
        [(''./DATA/cti-cache/shodan-cache.meta.json'', ''created 1000, checksum of payload''),
         (''./DATA/cti-cache/shodan-cache.json'', ''payloaf'')])
   = Inr None
   \<and> loadFromCache sampleRuntime sampleEnv (sampleScraper True 0)
     (sampleWorld (1000 + 24 * 3600000 + 1)
        [(''./DATA/cti-cache/shodan-cache.meta.json'', ''created 1000, checksum of payload''),
         (''./DATA/cti-cache/shodan-cache.json'', ''payload'')])
   = Inr None"
proof -
  have p: "JSON_parse_metadata sampleRuntime ''created 1000, checksum of payload''
             = Inr (MetaValue (Some 1000) (Some ''digest of payload''))"
    "md5_hex sampleRuntime ''payloaf'' = ''digest of payloaf''"
    by (simp_all add: sampleRuntime_def sampleParseMetadata_def)
  show ?thesis
    by (simp add: loadFromCache_def loadFromCache_try_def Let_def sample_paths fs_access_def
        fs_readFile_def sampleWorld_def sampleEnv_def generateChecksum_def sample_config
        sample_expiry_utc p)
qed

lemma summer_time_expiry:
  "setHours (sampleRuntime\<lparr>LocalTZA := summerTimeEnds 1761440400000\<rparr>) 1761386400000
     (getHours (sampleRuntime\<lparr>LocalTZA := summerTimeEnds 1761440400000\<rparr>) 1761386400000 + 24)
   = 1761386400000 + 25 * 3600000"
  by (simp add: setHours_adds_hours UTC_def LocalTime_def summerTimeEnds_def msPerHour_def)

text \<open>
  The expiry that \<^verbatim>\<open>saveToCache\<close> writes into the metadata is the creation instant plus
  \<open>ttlHours * 3600000\<close> ms, whatever the zone.
\<close>

lemma saveToCache_expiresAt:
  assumes "writable w (cacheDir sc)"
    and "writable w (getCachePath sc)"
    and "writable w (getCacheMetadataPath sc)"
  shows "\<exists>w'. saveToCache rt sc w d = Inr w'
           \<and> files w' (getCacheMetadataPath sc)
               = Some (JSON_stringify_metadata rt
                         \<lparr> createdAt = clock w,
                            expiresAt = clock w + ttlHours (cache (config sc)) * 3600000,
                            meta_source = config_source (config sc),
                            checksum = generateChecksum rt (JSON_stringify_data rt d) \<rparr>)"
  using assms by (simp add: saveToCache_def fs_mkdir_def fs_writeFile_def Let_def)

text \<open>
  C5. The claim holds for a corrupted payload and for missing or unreadable metadata,
  and fails on the code for the expiry: the read adds the lifetime to the local hour of
  the creation date, so that an entry written on the day before summer time ends lives
  25 hours. Written at 2025-10-25T10:00:00Z with a lifetime of 24 hours and read at
  2025-10-26T10:30:00Z, half an hour past \<open>createdAt + ttl\<close>, the entry is served.
\<close>

theorem cache_served_past_ttl_when_summer_time_ends:
  "loadFromCache (sampleRuntime\<lparr>LocalTZA := summerTimeEnds 1761440400000\<rparr>) sampleEnv
     (sampleScraper True 0)
     (sampleWorld 1761474600000
        [(''./DATA/cti-cache/shodan-cache.meta.json'',
          ''created 2025-10-25T10:00:00.000Z, checksum of payload''),
         (''./DATA/cti-cache/shodan-cache.json'', ''payload'')])
   = Inr (Some ''payload'')
   \<and> JSON_parse_metadata (sampleRuntime\<lparr>LocalTZA := summerTimeEnds 1761440400000\<rparr>)
        ''created 2025-10-25T10:00:00.000Z, checksum of payload''
       = Inr (MetaValue (Some 1761386400000) (Some ''digest of payload''))
   \<and> 1761386400000 + ttlHoursInEffect sampleEnv (sampleScraper True 0) * 3600000
       < clock (sampleWorld 1761474600000
                  [(''./DATA/cti-cache/shodan-cache.meta.json'',
                    ''created 2025-10-25T10:00:00.000Z, checksum of payload''),
                   (''./DATA/cti-cache/shodan-cache.json'', ''payload'')])"
proof -
  let ?rt = "sampleRuntime\<lparr>LocalTZA := summerTimeEnds 1761440400000\<rparr>"
  have p: "JSON_parse_metadata sampleRuntime ''created 2025-10-25T10:00:00.000Z, checksum of payload''
             = Inr (MetaValue (Some 1761386400000) (Some ''digest of payload''))"
    "md5_hex sampleRuntime ''payload'' = ''digest of payload''"
    "JSON_parse_data sampleRuntime ''payload'' = Inr (Some ''payload'')"
    by (simp_all add: sampleRuntime_def sampleParseMetadata_def)
  have served: "loadFromCache ?rt sampleEnv (sampleScraper True 0)
     (sampleWorld 1761474600000
        [(''./DATA/cti-cache/shodan-cache.meta.json'',
          ''created 2025-10-25T10:00:00.000Z, checksum of payload''),
         (''./DATA/cti-cache/shodan-cache.json'', ''payload'')])
   = Inr (Some ''payload'')"
    by (simp add: loadFromCache_def loadFromCache_try_def Let_def sample_paths fs_access_def
        fs_readFile_def sampleWorld_def sampleEnv_def generateChecksum_def sample_config
        summer_time_expiry p)
  from served show ?thesis
    by (simp add: p sample_ttl sample_config sampleWorld_def)
qed

section \<open>Properties of the rate limiter\<close>







lemma exactSleep_on_time:
  "of_int (clock w) + d - of_int 0 \<le> (of_int (clock (exactSleep (Num d) w)) :: rat)"
  by (simp add: exactSleep_def)





section \<open>Properties of the scraper execution\<close>

lemma saveToCache_returns: "\<exists>w'. saveToCache rt sc w d = Inr w'"
  by (simp add: saveToCache_def Let_def split: sum.splits)

lemma execute_disabled:
  assumes "\<not> enabled (config sc)"
  shows "execute rt env scrape sleep sc w
           = (Inr \<lparr> success = False, data = None, error = Some ''Scraper disabled'',
                     fromCache = False \<rparr>, sc, w)"
  using assms by (simp add: execute_def)

lemma execute_cache_hit:
  assumes "enabled (config sc)"
    and "cache_enabled (cache (config sc))"
    and "USE_CACHE env = Some ''true''"
    and "loadFromCache rt env sc w = Inr (Some cached)"
  shows "execute rt env scrape sleep sc w
           = (Inr \<lparr> success = True, data = Some cached, error = None, fromCache = True \<rparr>, sc, w)"
  using assms by (simp add: execute_def)

lemma execute_scrape_throws:
  assumes "enabled (config sc)"
    and "(if cache_enabled (cache (config sc)) \<and> USE_CACHE env = Some ''true''
          then loadFromCache rt env sc w else Inr None) = Inr None"
    and "scrape (fst (applyRateLimit sleep sc w)) (snd (applyRateLimit sleep sc w)) = (Inl err, sc2, w2)"
  shows "execute rt env scrape sleep sc w
           = (Inr \<lparr> success = False, data = None, error = Some (messageOf err),
                     fromCache = False \<rparr>, sc2, w2)"
  using assms
  by (simp add: execute_def Let_def messageOf_def split_beta split: thrown.splits)

lemma execute_returns: "\<exists>r. fst (execute rt env scrape sleep sc w) = Inr r"
proof (cases "enabled (config sc)")
  case False
  then show ?thesis
    by (simp add: execute_disabled)
next
  case True
  let ?look = "if cache_enabled (cache (config sc)) \<and> USE_CACHE env = Some ''true''
          then loadFromCache rt env sc w else Inr None"
  from loadFromCache_returns [of rt env sc w] have "\<exists>c. ?look = Inr c"
    by (cases "cache_enabled (cache (config sc)) \<and> USE_CACHE env = Some ''true''") simp_all
  then obtain c where look: "?look = Inr c"
    by blast
  show ?thesis
  proof (cases c)
    case (Some cached)
    with True look show ?thesis
      by (simp add: execute_def)
  next
    case None
    obtain res sc2 w2 where s: "scrape (fst (applyRateLimit sleep sc w)) (snd (applyRateLimit sleep sc w))
                                  = (res, sc2, w2)"
      by (metis prod_cases3)
    show ?thesis
    proof (cases res)
      case (Inl err)
      with True look None s show ?thesis
        by (simp add: execute_scrape_throws)
    next
      case (Inr d)
      from saveToCache_returns [of rt sc2 w2 d] obtain w3 where "saveToCache rt sc2 w2 d = Inr w3"
        by blast
      with True look None s Inr show ?thesis
        by (simp add: execute_def Let_def split_beta)
    qed
  qed
qed

text \<open>
  C3, as stated, fails in its first half: a disabled scraper returns a failure, not a
  success. With the pipeline's configuration switched off, the result is
  \<^verbatim>\<open>{success: false, error: 'Scraper disabled', fromCache: false}\<close>.
\<close>

theorem disabled_scraper_is_failure:
  "enabled (config (sampleScraper False 0)) = False
   \<and> fst (execute sampleRuntime sampleEnv (failingScrape ''ECONNRESET'') exactSleep
            (sampleScraper False 0) (sampleWorld 1700000000000 []))
     = Inr \<lparr> success = False, data = None, error = Some ''Scraper disabled'', fromCache = False \<rparr>"
  by (simp add: execute_def sample_config)

text \<open>
  C3, amended. A disabled scraper returns the typed failure
  \<^verbatim>\<open>{success: false, error: 'Scraper disabled', fromCache: false}\<close> without fetching;
  a cache hit is a success with \<^verbatim>\<open>fromCache\<close> set; whenever \<^verbatim>\<open>scrape\<close> throws,
  \<^verbatim>\<open>execute\<close> returns the typed failure with the message of the error; and
  \<^verbatim>\<open>execute\<close> never throws.
\<close>

theorem execute_typed_results:
  "(\<exists>r. fst (execute rt env scrape sleep sc w) = Inr r)
   \<and> (\<not> enabled (config sc) \<longrightarrow>
        execute rt env scrape sleep sc w
          = (Inr \<lparr> success = False, data = None, error = Some ''Scraper disabled'',
                    fromCache = False \<rparr>, sc, w))
   \<and> (enabled (config sc) \<and> cache_enabled (cache (config sc)) \<and> USE_CACHE env = Some ''true''
        \<and> loadFromCache rt env sc w = Inr (Some cached) \<longrightarrow>
        execute rt env scrape sleep sc w
          = (Inr \<lparr> success = True, data = Some cached, error = None, fromCache = True \<rparr>, sc, w))
   \<and> (enabled (config sc)
        \<and> (if cache_enabled (cache (config sc)) \<and> USE_CACHE env = Some ''true''
            then loadFromCache rt env sc w else Inr None) = Inr None
        \<and> scrape (fst (applyRateLimit sleep sc w)) (snd (applyRateLimit sleep sc w))
            = (Inl err, sc2, w2) \<longrightarrow>
        execute rt env scrape sleep sc w
          = (Inr \<lparr> success = False, data = None, error = Some (messageOf err),
                    fromCache = False \<rparr>, sc2, w2))"
  using execute_returns [of rt env scrape sleep sc w] execute_disabled [of sc rt env scrape sleep w]
    execute_cache_hit [of sc env rt w cached scrape sleep]
    execute_scrape_throws [of sc env rt w scrape sleep err sc2 w2]
  by blast

theorem execute_typed_results_witness:
  "fst (execute sampleRuntime sampleEnv (failingScrape ''ECONNRESET'') exactSleep
          (sampleScraper True 0) (sampleWorld 1700000000000 []))
     = Inr \<lparr> success = False, data = None, error = Some ''ECONNRESET'', fromCache = False \<rparr>
   \<and> fst (execute sampleRuntime sampleEnv (failingScrape ''ECONNRESET'') exactSleep
          (sampleScraper True 0)
          (sampleWorld 2000
             [(''./DATA/cti-cache/shodan-cache.meta.json'', ''created 1000, checksum of payload''),
              (''./DATA/cti-cache/shodan-cache.json'', ''payload'')]))
     = Inr \<lparr> success = True, data = Some ''payload'', error = None, fromCache = True \<rparr>
   \<and> fst (execute sampleRuntime sampleEnv (failingScrape ''ECONNRESET'') exactSleep
          (sampleScraper False 0) (sampleWorld 1700000000000 []))
     = Inr \<lparr> success = False, data = None, error = Some ''Scraper disabled'', fromCache = False \<rparr>"
proof -
  let ?scrape = "failingScrape ''ECONNRESET''"
  let ?sc = "sampleScraper True 0"
  let ?w = "sampleWorld 1700000000000 []"
  let ?hit = "sampleWorld 2000
             [(''./DATA/cti-cache/shodan-cache.meta.json'', ''created 1000, checksum of payload''),
              (''./DATA/cti-cache/shodan-cache.json'', ''payload'')]"
  have miss: "loadFromCache sampleRuntime sampleEnv ?sc ?w = Inr None"
    by (simp add: loadFromCache_metadata_missing sampleWorld_def)
  have h1: "enabled (config ?sc)
        \<and> (if cache_enabled (cache (config ?sc)) \<and> USE_CACHE sampleEnv = Some ''true''
            then loadFromCache sampleRuntime sampleEnv ?sc ?w else Inr None) = Inr None
        \<and> ?scrape (fst (applyRateLimit exactSleep ?sc ?w)) (snd (applyRateLimit exactSleep ?sc ?w))
            = (Inl (Error ''ECONNRESET''), fst (applyRateLimit exactSleep ?sc ?w),
               (snd (applyRateLimit exactSleep ?sc ?w))
                 \<lparr>clock := clock (snd (applyRateLimit exactSleep ?sc ?w)) + 30000\<rparr>)"
    using miss by (simp add: sample_config failingScrape_def)
  from execute_typed_results [of sampleRuntime sampleEnv ?scrape exactSleep ?sc ?w] h1
  have r1: "fst (execute sampleRuntime sampleEnv ?scrape exactSleep ?sc ?w)
     = Inr \<lparr> success = False, data = None, error = Some (messageOf (Error ''ECONNRESET'')),
               fromCache = False \<rparr>"
    by (metis fst_conv)
  have h2: "enabled (config ?sc) \<and> cache_enabled (cache (config ?sc))
        \<and> USE_CACHE sampleEnv = Some ''true''
        \<and> loadFromCache sampleRuntime sampleEnv ?sc ?hit = Inr (Some ''payload'')"
    by (simp add: sample_config sample_cache_hit) (simp add: sampleEnv_def)
  from execute_typed_results [of sampleRuntime sampleEnv ?scrape exactSleep ?sc ?hit] h2
  have r2: "fst (execute sampleRuntime sampleEnv ?scrape exactSleep ?sc ?hit)
     = Inr \<lparr> success = True, data = Some ''payload'', error = None, fromCache = True \<rparr>"
    by (metis fst_conv)
  have h3: "\<not> enabled (config (sampleScraper False 0))"
    by (simp add: sample_config)
  from execute_typed_results [of sampleRuntime sampleEnv ?scrape exactSleep "sampleScraper False 0" ?w] h3
  have r3: "fst (execute sampleRuntime sampleEnv ?scrape exactSleep (sampleScraper False 0) ?w)
     = Inr \<lparr> success = False, data = None, error = Some ''Scraper disabled'', fromCache = False \<rparr>"
    by (metis fst_conv)
  from r1 r2 r3 show ?thesis
    by (simp add: messageOf_def)
qed

section \<open>Properties of the enrichment fallbacks\<close>

text \<open>
  C7, as stated, fails for \<^verbatim>\<open>LLMAnalyzer\<close>: its heuristic result carries an
  identifier and a timestamp read from the clock. Two runs on the same context with
  a failing endpoint, one minute apart, differ.
\<close>

theorem heuristic_result_depends_on_clock:
  "analyze_enrich unparsable None 1700000000000 1700000000000 (Inl (Error ''timeout'')) sampleNormalized
     \<noteq> analyze_enrich unparsable None 1700000060000 1700000060000 (Inl (Error ''timeout'')) sampleNormalized
   \<and> analysisTimestamp
        (analyze_enrich unparsable None 1700000000000 1700000000000 (Inl (Error ''timeout'')) sampleNormalized)
       = 1700000000000
   \<and> analysisTimestamp
        (analyze_enrich unparsable None 1700000060000 1700000060000 (Inl (Error ''timeout'')) sampleNormalized)
       = 1700000060000"
proof -
  have a: "analysisTimestamp
        (analyze_enrich unparsable None 1700000000000 1700000000000 (Inl (Error ''timeout'')) sampleNormalized)
       = 1700000000000"
    by (simp add: analyze_enrich_def heuristicAnalysis_def buildResult_def Let_def)
  have b: "analysisTimestamp
        (analyze_enrich unparsable None 1700000060000 1700000060000 (Inl (Error ''timeout'')) sampleNormalized)
       = 1700000060000"
    by (simp add: analyze_enrich_def heuristicAnalysis_def buildResult_def Let_def)
  have "analyze_enrich unparsable None 1700000000000 1700000000000 (Inl (Error ''timeout'')) sampleNormalized
     \<noteq> analyze_enrich unparsable None 1700000060000 1700000060000 (Inl (Error ''timeout'')) sampleNormalized"
  proof
    assume "analyze_enrich unparsable None 1700000000000 1700000000000 (Inl (Error ''timeout'')) sampleNormalized
      = analyze_enrich unparsable None 1700000060000 1700000060000 (Inl (Error ''timeout'')) sampleNormalized"
    then have "analysisTimestamp
        (analyze_enrich unparsable None 1700000000000 1700000000000 (Inl (Error ''timeout'')) sampleNormalized)
      = analysisTimestamp
        (analyze_enrich unparsable None 1700000060000 1700000060000 (Inl (Error ''timeout'')) sampleNormalized)"
      by (rule arg_cong)
    then show False
      unfolding a b by simp
  qed
  with a b show ?thesis
    by blast
qed

text \<open>
  C7, amended. With an endpoint that fails, whatever it throws, two runs on the same
  context give heuristic results that agree in every field but the identifier of the
  insight and the timestamp of the analysis, which are the clock's; runs that read the
  same clock give the same result. The fallback of \<^verbatim>\<open>CTIAgentSystem\<close> is a function of
  the context alone.
\<close>

theorem fallback_deterministic_up_to_clock:
  "withoutClock (analyze_enrich parseResponse env t1 u1 (Inl e1) d)
     = withoutClock (analyze_enrich parseResponse env t2 u2 (Inl e2) d)
   \<and> analyze_enrich parseResponse env t1 u1 (Inl e1) d
     = analyze_enrich parseResponse env t1 u1 (Inl e2) d
   \<and> analyze_enrich parseResponse env t1 u1 (Inl e1) d = heuristicAnalysis env t1 u1 d
   \<and> insights (analyze_enrich parseResponse env t1 u1 (Inl e1) d)
     = map (\<lambda>i. i\<lparr>insight_id := ''insight_'' @ showInt t1\<rparr>)
         (insights (analyze_enrich parseResponse env t2 u2 (Inl e2) d))
   \<and> analysisTimestamp (analyze_enrich parseResponse env t1 u1 (Inl e1) d) = u1
   \<and> runLLMAnalysis parseTextResponse (Inl e1) context
     = runLLMAnalysis parseTextResponse (Inl e2) context
   \<and> runLLMAnalysis parseTextResponse (Inl e1) context = fallbackAnalysis context"
  by (simp add: analyze_enrich_def heuristicAnalysis_def buildResult_def withoutClock_def
      runLLMAnalysis_def Let_def)

theorem fallback_deterministic_up_to_clock_witness:
  "withoutClock (analyze_enrich unparsable None 1700000000000 1700000000000
                   (Inl (Error ''timeout'')) sampleNormalized)
     = withoutClock (analyze_enrich unparsable None 1700000060000 1700000060001
                       (Inl NotAnError) sampleNormalized)
   \<and> executiveSummary (analyze_enrich unparsable None 1700000000000 1700000000000
                         (Inl (Error ''timeout'')) sampleNormalized)
     = ''3 amenazas detectadas, 2 cr'' @ [CHR 0xED] @ ''ticas. Foco: vulnerability.''
   \<and> riskLevel (runLLMAnalysis (\<lambda>t. Inl NotAnError) (Inl (Error ''timeout''))
                  ''THREAT COUNTS: 3 total  Critical: 2'')
     = ''high''"
proof -
  have s: "executiveSummary (heuristicAnalysis None 1700000000000 1700000000000 sampleNormalized)
     = ''3 amenazas detectadas, 2 cr'' @ [CHR 0xED] @ ''ticas. Foco: vulnerability.''"
    by (simp add: heuristicAnalysis_def buildResult_def defaultSummary_def sampleNormalized_def
        showInt_def digitChar_def Let_def)
  have f: "riskLevel (fallbackAnalysis ''THREAT COUNTS: 3 total  Critical: 2'') = ''high''"
    by (simp add: fallbackAnalysis_def Let_def)
  note t = fallback_deterministic_up_to_clock [of unparsable None 1700000000000 1700000000000
      "Error ''timeout''" sampleNormalized 1700000060000 1700000060001 NotAnError
      "\<lambda>t. Inl NotAnError" "''THREAT COUNTS: 3 total  Critical: 2''"]
  from t have w: "withoutClock (analyze_enrich unparsable None 1700000000000 1700000000000
                   (Inl (Error ''timeout'')) sampleNormalized)
     = withoutClock (analyze_enrich unparsable None 1700000060000 1700000060001
                       (Inl NotAnError) sampleNormalized)"
    by blast
  from t have e: "analyze_enrich unparsable None 1700000000000 1700000000000
                   (Inl (Error ''timeout'')) sampleNormalized
     = heuristicAnalysis None 1700000000000 1700000000000 sampleNormalized"
    by blast
  from t have r: "runLLMAnalysis (\<lambda>t. Inl NotAnError) (Inl (Error ''timeout''))
                  ''THREAT COUNTS: 3 total  Critical: 2''
     = fallbackAnalysis ''THREAT COUNTS: 3 total  Critical: 2''"
    by blast
  from s have c2: "executiveSummary (analyze_enrich unparsable None 1700000000000 1700000000000
                         (Inl (Error ''timeout'')) sampleNormalized)
     = ''3 amenazas detectadas, 2 cr'' @ [CHR 0xED] @ ''ticas. Foco: vulnerability.''"
    by (simp only: e)
  from f have c3: "riskLevel (runLLMAnalysis (\<lambda>t. Inl NotAnError) (Inl (Error ''timeout''))
                  ''THREAT COUNTS: 3 total  Critical: 2'')
     = ''high''"
    by (simp only: r)
  from w c2 c3 show ?thesis
    by blast
qed

section \<open>Properties of the title sanitiser\<close>

subsection \<open>The matcher\<close>

lemma isDigit_isWord: "isDigit c \<Longrightarrow> isWord c"
  by (auto simp add: isDigit_def isWord_def)

lemma digitsAt_hd: "digitsAt k s \<Longrightarrow> 0 < k \<Longrightarrow> s \<noteq> [] \<and> isDigit (hd s)"
  by (cases s) (auto simp add: digitsAt_def take_Cons split: nat.splits)

lemma digitsAt_nth: "digitsAt k s \<Longrightarrow> i < k \<Longrightarrow> isDigit (s ! i)"
  by (simp add: digitsAt_def list_all_length)

lemma digitsAt_append: "k \<le> length u \<Longrightarrow> digitsAt k (u @ v) = digitsAt k u"
  by (simp add: digitsAt_def)

text \<open>The three alternatives of a greedy \<^verbatim>\<open>\d{1,3}\<close>, and what the matcher makes of them.\<close>

lemma rmatch_Digits13_alternatives:
  "rmatch (Digits13 # re) p s
     = (case (if digitsAt 3 s then map_option ((+) 3) (rmatch re True (drop 3 s)) else None) of
          Some n \<Rightarrow> Some n
        | None \<Rightarrow>
       (case (if digitsAt 2 s then map_option ((+) 2) (rmatch re True (drop 2 s)) else None) of
          Some n \<Rightarrow> Some n
        | None \<Rightarrow>
          (if digitsAt 1 s then map_option ((+) 1) (rmatch re True (drop 1 s)) else None)))"
  by (rule rmatch.simps(4))

declare rmatch.simps(4) [simp del]

lemma rmatch_Digits13_Some:
  assumes "rmatch (Digits13 # re) p s = Some n"
  shows "\<exists>k m. (k = 1 \<or> k = 2 \<or> k = 3) \<and> digitsAt k s
            \<and> rmatch re True (drop k s) = Some m \<and> n = k + m"
proof -
  define alt where
    "alt k = (if digitsAt k s then map_option ((+) k) (rmatch re True (drop k s)) else None)" for k
  have "rmatch (Digits13 # re) p s
          = (case alt 3 of Some n \<Rightarrow> Some n | None \<Rightarrow> (case alt 2 of Some n \<Rightarrow> Some n | None \<Rightarrow> alt 1))"
    unfolding alt_def by (rule rmatch_Digits13_alternatives)
  with assms have "alt 3 = Some n \<or> alt 2 = Some n \<or> alt 1 = Some n"
    by (cases "alt 3"; cases "alt 2") simp_all
  then obtain k where k: "k = 1 \<or> k = 2 \<or> k = 3" and a: "alt k = Some n"
    by blast
  from a have d: "digitsAt k s"
    by (cases "digitsAt k s") (simp_all add: alt_def)
  with a obtain m where "rmatch re True (drop k s) = Some m" and "n = k + m"
    by (cases "rmatch re True (drop k s)") (simp_all add: alt_def)
  with k d show ?thesis
    by blast
qed

lemma rmatch_Digits13_found:
  assumes "k = 1 \<or> k = 2 \<or> k = 3" and "digitsAt k s" and "rmatch re True (drop k s) \<noteq> None"
  shows "rmatch (Digits13 # re) p s \<noteq> None"
proof -
  define alt where
    "alt k = (if digitsAt k s then map_option ((+) k) (rmatch re True (drop k s)) else None)" for k
  have eq: "rmatch (Digits13 # re) p s
          = (case alt 3 of Some n \<Rightarrow> Some n | None \<Rightarrow> (case alt 2 of Some n \<Rightarrow> Some n | None \<Rightarrow> alt 1))"
    unfolding alt_def by (rule rmatch_Digits13_alternatives)
  from assms(2,3) have "alt k \<noteq> None"
    by (simp add: alt_def)
  with assms(1) have "alt 3 \<noteq> None \<or> alt 2 \<noteq> None \<or> alt 1 \<noteq> None"
    by blast
  then show ?thesis
    unfolding eq by (cases "alt 3"; cases "alt 2") simp_all
qed

lemma rmatch_Lit_Some:
  assumes "rmatch (Lit c # re) p s = Some n"
  shows "\<exists>xs m. s = c # xs \<and> rmatch re (isWord c) xs = Some m \<and> n = Suc m"
  using assms by (cases s) (auto split: if_splits)

lemma rmatch_WordBoundary_Some:
  assumes "rmatch (WordBoundary # re) p s = Some n"
  shows "p \<noteq> wordAhead s \<and> rmatch re p s = Some n"
  using assms by (auto split: if_splits)

lemma rmatch_length: "rmatch re p s = Some n \<Longrightarrow> n \<le> length s"
proof (induction re arbitrary: p s n)
  case Nil
  then show ?case by simp
next
  case (Cons a re)
  show ?case
  proof (cases a)
    case WordBoundary
    with Cons.prems have "rmatch re p s = Some n"
      using rmatch_WordBoundary_Some by blast
    then show ?thesis by (rule Cons.IH)
  next
    case Digits13
    with Cons.prems obtain k m where k: "digitsAt k s" and m: "rmatch re True (drop k s) = Some m"
        and n: "n = k + m"
      using rmatch_Digits13_Some by blast
    from Cons.IH [OF m] have "m \<le> length s - k" by simp
    moreover from k have "k \<le> length s" by (simp add: digitsAt_def)
    ultimately show ?thesis using n by simp
  next
    case (Lit c)
    with Cons.prems obtain xs m where s: "s = c # xs" and m: "rmatch re (isWord c) xs = Some m"
        and n: "n = Suc m"
      using rmatch_Lit_Some by blast
    from Cons.IH [OF m] show ?thesis using s n by simp
  qed
qed

text \<open>What a match consumes are digits and the literal characters of the expression.\<close>

lemma rmatch_consumed:
  "rmatch re p s = Some n \<Longrightarrow> i < n \<Longrightarrow> isDigit (s ! i) \<or> Lit (s ! i) \<in> set re"
proof (induction re arbitrary: p s n i)
  case Nil
  then show ?case by simp
next
  case (Cons a re)
  show ?case
  proof (cases a)
    case WordBoundary
    with Cons.prems have "rmatch re p s = Some n"
      using rmatch_WordBoundary_Some by blast
    from Cons.IH [OF this Cons.prems(2)] show ?thesis by auto
  next
    case Digits13
    with Cons.prems obtain k m where k: "digitsAt k s" and m: "rmatch re True (drop k s) = Some m"
        and n: "n = k + m"
      using rmatch_Digits13_Some by blast
    show ?thesis
    proof (cases "i < k")
      case True
      with k show ?thesis by (simp add: digitsAt_nth)
    next
      case False
      with Cons.prems(2) n have "i - k < m" by simp
      from Cons.IH [OF m this] have "isDigit (drop k s ! (i - k)) \<or> Lit (drop k s ! (i - k)) \<in> set re" .
      moreover from k have "k \<le> length s" by (simp add: digitsAt_def)
      ultimately show ?thesis using False by auto
    qed
  next
    case (Lit c)
    with Cons.prems obtain xs m where s: "s = c # xs" and m: "rmatch re (isWord c) xs = Some m"
        and n: "n = Suc m"
      using rmatch_Lit_Some by blast
    show ?thesis
    proof (cases i)
      case 0
      with s Lit show ?thesis by simp
    next
      case (Suc j)
      with Cons.prems(2) n have "j < m" by simp
      from Cons.IH [OF m this] show ?thesis using s Suc by auto
    qed
  qed
qed

text \<open>
  A match that ends before the end of a prefix of the string depends on that prefix
  only: it is found again whatever follows the prefix.
\<close>

lemma rmatch_local:
  "rmatch re p (u @ v) = Some n \<Longrightarrow> n < length u \<Longrightarrow> rmatch re p (u @ v') \<noteq> None"
proof (induction re arbitrary: p u n)
  case Nil
  then show ?case by simp
next
  case (Cons a re)
  show ?case
  proof (cases a)
    case WordBoundary
    with Cons.prems(1) have "rmatch (WordBoundary # re) p (u @ v) = Some n"
      by simp
    from rmatch_WordBoundary_Some [OF this]
    have b: "p \<noteq> wordAhead (u @ v)" and r: "rmatch re p (u @ v) = Some n"
      by blast+
    from Cons.prems(2) obtain x u' where "u = x # u'"
      by (cases u) auto
    then have "wordAhead (u @ v') = wordAhead (u @ v)"
      by (simp add: wordAhead_def)
    with b have b': "p \<noteq> wordAhead (u @ v')"
      by simp
    from Cons.IH [OF r Cons.prems(2)] have "rmatch re p (u @ v') \<noteq> None" .
    with b' have "rmatch (WordBoundary # re) p (u @ v') \<noteq> None"
      by simp
    with WordBoundary show ?thesis
      by simp
  next
    case Digits13
    with Cons.prems(1) have "rmatch (Digits13 # re) p (u @ v) = Some n"
      by simp
    from rmatch_Digits13_Some [OF this]
    obtain k m where k123: "k = 1 \<or> k = 2 \<or> k = 3" and k: "digitsAt k (u @ v)"
        and m: "rmatch re True (drop k (u @ v)) = Some m" and n: "n = k + m"
      by blast
    from n Cons.prems(2) have ku: "k \<le> length u" and mu: "m < length (drop k u)"
      by simp_all
    from k ku have k': "digitsAt k (u @ v')"
      by (simp add: digitsAt_append)
    from m ku have "rmatch re True (drop k u @ v) = Some m"
      by simp
    from Cons.IH [OF this mu] have "rmatch re True (drop k u @ v') \<noteq> None" .
    with ku have "rmatch re True (drop k (u @ v')) \<noteq> None"
      by simp
    from rmatch_Digits13_found [OF k123 k' this] have "rmatch (Digits13 # re) p (u @ v') \<noteq> None" .
    with Digits13 show ?thesis
      by simp
  next
    case (Lit c)
    with Cons.prems(1) have "rmatch (Lit c # re) p (u @ v) = Some n"
      by simp
    from rmatch_Lit_Some [OF this]
    obtain xs m where s: "u @ v = c # xs" and m: "rmatch re (isWord c) xs = Some m"
        and n: "n = Suc m"
      by blast
    from Cons.prems(2) obtain x u' where u: "u = x # u'"
      by (cases u) auto
    with s have x: "x = c" and xs: "xs = u' @ v"
      by simp_all
    from n Cons.prems(2) u have mu: "m < length u'"
      by simp
    from m xs have "rmatch re (isWord c) (u' @ v) = Some m"
      by simp
    from Cons.IH [OF this mu] have "rmatch re (isWord c) (u' @ v') \<noteq> None" .
    then have "rmatch (Lit c # re) p ((c # u') @ v') \<noteq> None"
      by simp
    with u x Lit show ?thesis
      by simp
  qed
qed

text \<open>An expression that ends in digits and a word boundary ends its match just so.\<close>

lemma rmatch_ends_in_digit:
  "rmatch (re @ [Digits13, WordBoundary]) p s = Some n \<Longrightarrow>
     0 < n \<and> isDigit (s ! (n - 1)) \<and> \<not> wordAhead (drop n s)"
proof (induction re arbitrary: p s n)
  case Nil
  then have "rmatch (Digits13 # [WordBoundary]) p s = Some n"
    by simp
  from rmatch_Digits13_Some [OF this]
  obtain k m where k123: "k = 1 \<or> k = 2 \<or> k = 3" and k: "digitsAt k s"
      and m: "rmatch [WordBoundary] True (drop k s) = Some m" and n: "n = k + m"
    by blast
  from rmatch_WordBoundary_Some [OF m] have m0: "m = 0" and w: "\<not> wordAhead (drop k s)"
    by simp_all
  from k123 have "k - 1 < k" by auto
  from digitsAt_nth [OF k this] have "isDigit (s ! (k - 1))" .
  with k123 n m0 w show ?case
    by auto
next
  case (Cons a re)
  show ?case
  proof (cases a)
    case WordBoundary
    with Cons.prems have "rmatch (WordBoundary # (re @ [Digits13, WordBoundary])) p s = Some n"
      by simp
    from rmatch_WordBoundary_Some [OF this]
    have "rmatch (re @ [Digits13, WordBoundary]) p s = Some n"
      by (rule conjunct2)
    then show ?thesis by (rule Cons.IH)
  next
    case Digits13
    with Cons.prems have "rmatch (Digits13 # (re @ [Digits13, WordBoundary])) p s = Some n"
      by simp
    from rmatch_Digits13_Some [OF this]
    obtain k m where k: "digitsAt k s"
        and m: "rmatch (re @ [Digits13, WordBoundary]) True (drop k s) = Some m" and n: "n = k + m"
      by blast
    from Cons.IH [OF m] have m0: "0 < m" and d: "isDigit (drop k s ! (m - 1))"
        and w: "\<not> wordAhead (drop m (drop k s))"
      by simp_all
    from k have kl: "k \<le> length s" by (simp add: digitsAt_def)
    from d kl m0 have "isDigit (s ! (k + m - 1))"
      by simp
    moreover from w have "\<not> wordAhead (drop (k + m) s)"
      by (simp add: add.commute)
    ultimately show ?thesis using n m0 by simp
  next
    case (Lit c)
    with Cons.prems have "rmatch (Lit c # (re @ [Digits13, WordBoundary])) p s = Some n"
      by simp
    from rmatch_Lit_Some [OF this]
    obtain xs m where s: "s = c # xs"
        and m: "rmatch (re @ [Digits13, WordBoundary]) (isWord c) xs = Some m" and n: "n = Suc m"
      by blast
    from Cons.IH [OF m] have m0: "0 < m" and d: "isDigit (xs ! (m - 1))"
        and w: "\<not> wordAhead (drop m xs)"
      by simp_all
    from m0 d have "isDigit ((c # xs) ! m)" by (cases m) simp_all
    with s n w show ?thesis by simp
  qed
qed
subsection \<open>Matches of the address expression\<close>

lemma ip_match_start:
  assumes "rmatch ipPattern p s = Some n"
  shows "\<not> p \<and> s \<noteq> [] \<and> isDigit (hd s)"
proof -
  from assms have "rmatch (WordBoundary # Digits13 # tl (tl ipPattern)) p s = Some n"
    by (simp add: ipPattern_def)
  from rmatch_WordBoundary_Some [OF this]
  have b: "p \<noteq> wordAhead s" and d: "rmatch (Digits13 # tl (tl ipPattern)) p s = Some n"
    by blast+
  from rmatch_Digits13_Some [OF d] obtain k where "k = 1 \<or> k = 2 \<or> k = 3" and "digitsAt k s"
    by blast
  then have s: "s \<noteq> [] \<and> isDigit (hd s)"
    using digitsAt_hd [of k s] by auto
  then have "wordAhead s"
    by (cases s) (simp_all add: wordAhead_def isDigit_isWord)
  with b s show ?thesis
    by simp
qed

lemma ip_match_Nil: "rmatch ipPattern p [] = None"
proof (cases "rmatch ipPattern p []")
  case None
  then show ?thesis .
next
  case (Some n)
  from ip_match_start [OF this] show ?thesis
    by simp
qed

lemma ip_match_not_digit:
  assumes "\<not> isDigit c"
  shows "rmatch ipPattern p (c # cs) = None"
proof (cases "rmatch ipPattern p (c # cs)")
  case None
  then show ?thesis .
next
  case (Some n)
  from ip_match_start [OF this] assms show ?thesis
    by simp
qed

lemma ip_match_end:
  assumes "rmatch ipPattern p s = Some n"
  shows "0 < n \<and> n \<le> length s \<and> isDigit (s ! (n - 1)) \<and> \<not> wordAhead (drop n s)"
proof -
  have "ipPattern
          = [WordBoundary, Digits13, Lit CHR ''.'', Digits13, Lit CHR ''.'', Digits13, Lit CHR ''.'']
            @ [Digits13, WordBoundary]"
    by (simp add: ipPattern_def)
  with assms have "rmatch ([WordBoundary, Digits13, Lit CHR ''.'', Digits13, Lit CHR ''.'', Digits13,
                            Lit CHR ''.''] @ [Digits13, WordBoundary]) p s = Some n"
    by simp
  from rmatch_ends_in_digit [OF this] rmatch_length [OF assms] show ?thesis
    by simp
qed

lemma ip_match_consumed:
  assumes "rmatch ipPattern p s = Some n" and "i < n"
  shows "isDigit (s ! i) \<or> s ! i = CHR ''.''"
  using rmatch_consumed [OF assms] by (auto simp add: ipPattern_def)

lemma not_digit_bracket: "\<not> isDigit CHR ''[''" "\<not> isDigit CHR ''I''" "\<not> isDigit CHR ''P''"
  "\<not> isDigit CHR '']''" "\<not> isWord CHR '']''"
  by (simp_all add: isDigit_def isWord_def)

subsection \<open>No match is left behind\<close>

text \<open>
  Where the expression does not match before the scan, it does not match after it: the
  text the scan puts in holds no digit, and a replaced address begins and ends at a
  word boundary.
\<close>

lemma replace_keeps_failure:
  "u \<noteq> [] \<Longrightarrow> rmatch ipPattern p (u @ s) = None \<Longrightarrow>
     rmatch ipPattern p (u @ replaceAll ipPattern ''[IP]'' (isWord (last u)) s) = None"
proof (induction s arbitrary: u)
  case Nil
  then show ?case
    by (simp add: ip_match_Nil)
next
  case (Cons c cs)
  show ?case
  proof (cases "rmatch ipPattern (isWord (last u)) (c # cs)")
    case None
    from Cons.prems(2) have "rmatch ipPattern p ((u @ [c]) @ cs) = None"
      by simp
    from Cons.IH [OF _ this]
    have "rmatch ipPattern p ((u @ [c]) @ replaceAll ipPattern ''[IP]'' (isWord c) cs) = None"
      by simp
    with None show ?thesis
      by simp
  next
    case (Some k)
    from ip_match_start [OF Some] have notword: "\<not> isWord (last u)"
      by simp
    from ip_match_end [OF Some] obtain j where k: "k = Suc j"
      by (cases k) auto
    from Some k obtain rest
      where r: "replaceAll ipPattern ''[IP]'' (isWord (last u)) (c # cs) = CHR ''['' # rest"
      by simp
    have "rmatch ipPattern p (u @ CHR ''['' # rest) = None"
    proof (cases "rmatch ipPattern p (u @ CHR ''['' # rest)")
      case None
      then show ?thesis .
    next
      case found: (Some n)
      consider "n < length u" | "n = length u" | "length u < n"
        by linarith
      then show ?thesis
      proof cases
        case 1
        from rmatch_local [OF found 1] have "rmatch ipPattern p (u @ c # cs) \<noteq> None" .
        with Cons.prems(2) show ?thesis
          by simp
      next
        case 2
        from ip_match_end [OF found] have "isDigit ((u @ CHR ''['' # rest) ! (n - 1))" and "0 < n"
          by simp_all
        with 2 Cons.prems(1) have "isDigit (last u)"
          by (simp add: nth_append last_conv_nth)
        with notword show ?thesis
          by (simp add: isDigit_isWord)
      next
        case 3
        from ip_match_consumed [OF found 3]
        have "isDigit ((u @ CHR ''['' # rest) ! length u) \<or> (u @ CHR ''['' # rest) ! length u = CHR ''.''" .
        then show ?thesis
          by (simp add: not_digit_bracket)
      qed
    qed
    then show ?thesis
      unfolding r .
  qed
qed

lemma matchesSomewhere_prev:
  assumes "\<not> matchesSomewhere re p s" and "rmatch re q s = None"
  shows "\<not> matchesSomewhere re q s"
  using assms by (cases s) simp_all

lemma replaceAll_no_match:
  "\<not> matchesSomewhere ipPattern p (replaceAll ipPattern ''[IP]'' p s)"
proof (induction "length s" arbitrary: p s rule: less_induct)
  case less
  show ?case
  proof (cases s)
    case Nil
    then show ?thesis
      by (simp add: ip_match_Nil)
  next
    case (Cons c cs)
    show ?thesis
    proof (cases "rmatch ipPattern p (c # cs)")
      case None
      from replace_keeps_failure [of "[c]" p cs] None
      have "rmatch ipPattern p (c # replaceAll ipPattern ''[IP]'' (isWord c) cs) = None"
        by simp
      moreover from less [of cs "isWord c"] Cons
      have "\<not> matchesSomewhere ipPattern (isWord c) (replaceAll ipPattern ''[IP]'' (isWord c) cs)"
        by simp
      ultimately show ?thesis
        using Cons None by simp
    next
      case (Some k)
      from ip_match_end [OF Some] obtain j where k: "k = Suc j"
        by (cases k) auto
      from ip_match_end [OF Some] k have lastdigit: "isDigit ((c # cs) ! j)"
        and ahead: "\<not> wordAhead (drop j cs)"
        by simp_all
      let ?tail = "replaceAll ipPattern ''[IP]'' True (drop j cs)"
      from Some k lastdigit Cons
      have out: "replaceAll ipPattern ''[IP]'' p s = ''[IP]'' @ ?tail"
        by (simp add: isDigit_isWord)
      from less [of "drop j cs" True] Cons
      have ih: "\<not> matchesSomewhere ipPattern True ?tail"
        by simp
      have "rmatch ipPattern False ?tail = None"
      proof (cases "drop j cs")
        case Nil
        then show ?thesis
          by (simp add: ip_match_Nil)
      next
        case (Cons y ys)
        with ahead have "\<not> isWord y"
          by (simp add: wordAhead_def)
        then have y: "\<not> isDigit y"
          using isDigit_isWord by blast
        with Cons have "?tail = y # replaceAll ipPattern ''[IP]'' (isWord y) ys"
          by (simp add: ip_match_not_digit)
        with y show ?thesis
          by (simp add: ip_match_not_digit)
      qed
      from matchesSomewhere_prev [OF ih this]
      have "\<not> matchesSomewhere ipPattern False ?tail" .
      then show ?thesis
        unfolding out by (simp add: ip_match_not_digit not_digit_bracket)
    qed
  qed
qed
subsection \<open>The displayed title\<close>

lemma sanitizeTitle_length: "length (sanitizeTitle t) \<le> 80"
  by (simp add: sanitizeTitle_def)

lemma timeline_titles: "map tl_title (timeline ts) = map (sanitizeTitle \<circ> title) (take 8 ts)"
  by (simp add: timeline_def comp_def)

lemma dashboard_timeline:
  "pd_timeline (buildDashboard enc now (Some pd)) = timeline (threats pd)"
  "pd_timeline (buildDashboard enc now None) = []"
  by (simp_all add: buildDashboard_def buildEmptyDashboard_def Let_def timeline_def)

text \<open>
  What the sanitiser achieves. The displayed title is at most 80 code units long: it is
  the first 80 code units of the title in which every match of the expression, a dotted
  quad that stands between word boundaries, has been replaced by \<^verbatim>\<open>[IP]\<close>. In that
  text no match of the expression is left, and none is left in the displayed title when
  nothing was cut off.
\<close>

lemma sanitized_title_bounded_and_masked:
  "length (sanitizeTitle t) \<le> 80
   \<and> sanitizeTitle t = take 80 (replaceAll ipPattern ''[IP]'' False t)
   \<and> \<not> matchesSomewhere ipPattern False (replaceAll ipPattern ''[IP]'' False t)
   \<and> (length (replaceAll ipPattern ''[IP]'' False t) \<le> 80 \<longrightarrow>
        \<not> matchesSomewhere ipPattern False (sanitizeTitle t))
   \<and> (\<forall>e \<in> set (pd_timeline (buildDashboard enc now d)). length (tl_title e) \<le> 80)
   \<and> pd_timeline (buildDashboard enc now (Some pd)) = timeline (threats pd)
   \<and> map tl_title (timeline ts) = map (sanitizeTitle \<circ> title) (take 8 ts)"
proof (intro conjI impI ballI)
  show "length (sanitizeTitle t) \<le> 80"
    by (rule sanitizeTitle_length)
  show "sanitizeTitle t = take 80 (replaceAll ipPattern ''[IP]'' False t)"
    by (simp add: sanitizeTitle_def)
  show "\<not> matchesSomewhere ipPattern False (replaceAll ipPattern ''[IP]'' False t)"
    by (rule replaceAll_no_match)
  show "map tl_title (timeline ts) = map (sanitizeTitle \<circ> title) (take 8 ts)"
    by (rule timeline_titles)
  show "pd_timeline (buildDashboard enc now (Some pd)) = timeline (threats pd)"
    by (simp add: dashboard_timeline)
next
  assume "length (replaceAll ipPattern ''[IP]'' False t) \<le> 80"
  then have "sanitizeTitle t = replaceAll ipPattern ''[IP]'' False t"
    by (simp add: sanitizeTitle_def)
  then show "\<not> matchesSomewhere ipPattern False (sanitizeTitle t)"
    by (simp add: replaceAll_no_match)
next
  fix e assume "e \<in> set (pd_timeline (buildDashboard enc now d))"
  then obtain ts where "e \<in> set (timeline ts)"
    by (cases d) (auto simp add: dashboard_timeline timeline_def)
  then have "tl_title e \<in> set (map tl_title (timeline ts))"
    by simp
  then have "tl_title e \<in> (sanitizeTitle \<circ> title) ` set (take 8 ts)"
    unfolding timeline_titles by simp
  then obtain th :: ThreatSignal where "tl_title e = (sanitizeTitle \<circ> title) th"
    by (rule imageE)
  then show "length (tl_title e) \<le> 80"
    by (simp add: sanitizeTitle_length)
qed

lemma sanitized_title_example:
  "sanitizeTitle ''Exposed SSH on 192.168.1.10 port 22'' = ''Exposed SSH on [IP] port 22''
   \<and> \<not> matchesSomewhere ipPattern False (sanitizeTitle ''Exposed SSH on 192.168.1.10 port 22'')
   \<and> length (tl_title (hd (pd_timeline (buildDashboard id 1700000000000
        (Some \<lparr> threats = [sampleThreat ''Exposed SSH on 192.168.1.10 port 22''],
                 bySeverity = Map.empty, correlation = None \<rparr>))))) \<le> 80"
proof -
  let ?t = "''Exposed SSH on 192.168.1.10 port 22''"
  have r: "replaceAll ipPattern ''[IP]'' False ?t = ''Exposed SSH on [IP] port 22''"
    by code_simp
  then have len: "length (replaceAll ipPattern ''[IP]'' False ?t) \<le> 80"
    by simp
  let ?d = "Some \<lparr> threats = [sampleThreat ?t], bySeverity = Map.empty, correlation = None \<rparr>"
  note inst = sanitized_title_bounded_and_masked [of ?t id 1700000000000 ?d]
  from inst len have a: "\<not> matchesSomewhere ipPattern False (sanitizeTitle ?t)"
    by blast
  from inst r have b: "sanitizeTitle ?t = ''Exposed SSH on [IP] port 22''"
    by simp
  have "hd (pd_timeline (buildDashboard id 1700000000000 ?d))
          \<in> set (pd_timeline (buildDashboard id 1700000000000 ?d))"
    by (simp add: dashboard_timeline timeline_def)
  with inst have c: "length (tl_title (hd (pd_timeline (buildDashboard id 1700000000000 ?d)))) \<le> 80"
    by blast
  from a b c show ?thesis
    by blast
qed

text \<open>
  A match of the expression is not every address. Where the first digit of an address
  follows a digit, the match begins further on and a part of the address stays.
\<close>

lemma address_after_digit_masked_in_part:
  "sanitizeTitle ''x1.2.3.4.5'' = ''x1.[IP]''"
  by code_simp

text \<open>
  C10. The sanitiser is there to remove sensitive details, and the claim asks for a
  displayed title without a raw address. The code falls short of it: an address that
  follows a letter, a digit or an underscore is not at a word boundary, so the expression
  does not match it, and the title \<^verbatim>\<open>Open RDP on node_203.0.113.7\<close> is displayed in
  the timeline of the dashboard unchanged, with the address in it.
\<close>

theorem address_after_underscore_displayed:
  "sanitizeTitle ''Open RDP on node_203.0.113.7'' = ''Open RDP on node_203.0.113.7''
   \<and> containsDottedQuad (sanitizeTitle ''Open RDP on node_203.0.113.7'')
   \<and> map tl_title
        (pd_timeline (buildDashboard id 1700000000000
           (Some \<lparr> threats = [sampleThreat ''Open RDP on node_203.0.113.7''],
                    bySeverity = Map.empty, correlation = None \<rparr>)))
       = [''Open RDP on node_203.0.113.7'']"
proof -
  have s: "sanitizeTitle ''Open RDP on node_203.0.113.7'' = ''Open RDP on node_203.0.113.7''"
    by code_simp
  have c: "containsDottedQuad ''Open RDP on node_203.0.113.7''"
    by code_simp
  have t: "map tl_title
        (pd_timeline (buildDashboard id 1700000000000
           (Some \<lparr> threats = [sampleThreat ''Open RDP on node_203.0.113.7''],
                    bySeverity = Map.empty, correlation = None \<rparr>)))
       = [sanitizeTitle ''Open RDP on node_203.0.113.7'']"
    by (simp add: dashboard_timeline timeline_titles sampleThreat_def)
  from s c t show ?thesis
    by simp
qed

end
